theory Spec2Isabelle
  imports Complex_Main "HOL-Library.Word"
begin

section \<open>Strings and numbers of the script\<close>

text \<open>
  A JavaScript string is a sequence of UTF-16 code units, and \<open>length\<close> counts code
  units. Literals of the script are ASCII and are written \<open>js ''...''\<close>.
\<close>

type_synonym jsstring = "16 word list"

definition js :: "string \<Rightarrow> jsstring" where
  "js s = map of_char s"

text \<open>
  \<open>String.prototype.trim\<close> strips the WhiteSpace and LineTerminator code points of
  ECMAScript from both ends.
\<close>

definition isWhiteSpace :: "16 word \<Rightarrow> bool" where
  "isWhiteSpace c \<longleftrightarrow>
     c \<in> {0x9, 0xA, 0xB, 0xC, 0xD, 0x20, 0xA0, 0x1680, 0x2028, 0x2029, 0x202F, 0x205F, 0x3000, 0xFEFF}
     \<or> (0x2000 \<le> c \<and> c \<le> 0x200A)"

definition trim :: "jsstring \<Rightarrow> jsstring" where
  "trim s = rev (dropWhile isWhiteSpace (rev (dropWhile isWhiteSpace s)))"

text \<open>
  \<open>category.replace('_', ' ')\<close>: a string pattern replaces the first occurrence only.
\<close>

fun replace_first :: "16 word \<Rightarrow> 16 word \<Rightarrow> jsstring \<Rightarrow> jsstring" where
  "replace_first a b [] = []"
| "replace_first a b (c # cs) = (if c = a then b # cs else c # replace_first a b cs)"

text \<open>
  \<open>key.charAt(0).toUpperCase() + key.slice(1)\<close>. The case mapping is modelled on the
  ASCII letters (the emotion names are ASCII identifiers); other code units are kept.
  On the empty key \<open>charAt(0)\<close> is the empty string, and so is the result.
\<close>

definition toUpperCase_unit :: "16 word \<Rightarrow> 16 word" where
  "toUpperCase_unit c = (if 0x61 \<le> c \<and> c \<le> 0x7A then c - 0x20 else c)"

fun capitalize :: "jsstring \<Rightarrow> jsstring" where
  "capitalize [] = []"
| "capitalize (c # cs) = toUpperCase_unit c # cs"

text \<open>
  Numbers received from the service are modelled as exact rationals (IEEE rounding is not
  modelled). The decimal rendering of an integer, as \<open>Number::toString\<close> produces it
  below \<open>10^21\<close>:
\<close>

fun digits :: "nat \<Rightarrow> jsstring" where
  "digits n = (if n < 10 then [of_nat (48 + n)] else digits (n div 10) @ [of_nat (48 + n mod 10)])"

declare digits.simps [simp del]

definition Number_toString :: "int \<Rightarrow> jsstring" where
  "Number_toString i = (if i < 0 then js ''-'' @ digits (nat (- i)) else digits (nat i))"

text \<open>
  \<open>Number.prototype.toFixed(f)\<close> after ECMAScript: the sign is split off, \<open>n\<close> is the
  integer nearest to \<open>x * 10^f\<close> (the larger one on a tie), its digits are padded with
  zeros to \<open>f + 1\<close> places and the point is put before the last \<open>f\<close>.
  (From \<open>10^21\<close> on the script's runtime switches to exponent notation, which is not
  modelled; the values displayed here lie in \<open>[-1, 1]\<close> and \<open>[0, 100]\<close>.)
\<close>

definition toFixed_n :: "nat \<Rightarrow> rat \<Rightarrow> nat" where
  "toFixed_n f x = nat \<lfloor>\<bar>x\<bar> * 10 ^ f + 1 / 2\<rfloor>"

definition toFixed :: "nat \<Rightarrow> rat \<Rightarrow> jsstring" where
  "toFixed f x =
     (let s = (if x < 0 then js ''-'' else []);
          m = digits (toFixed_n f x);
          m' = (if f \<noteq> 0
                then (let k = length m;
                          z = (if k \<le> f then replicate (f + 1 - k) 0x30 @ m else m);
                          k' = length z
                      in take (k' - f) z @ js ''.'' @ drop (k' - f) z)
                else m)
      in s @ m')"

text \<open>
  The tween divides by \<open>duration / 16\<close>, which is zero for a zero duration; the
  quotient is then an infinity or NaN, and these values flow through the addition, the
  comparisons and \<open>Math.round\<close> of the tick.
\<close>

datatype number = Fin rat | PosInf | NegInf | NaN

definition divide_number :: "rat \<Rightarrow> rat \<Rightarrow> number" where
  "divide_number a b =
     (if b \<noteq> 0 then Fin (a / b)
      else if a > 0 then PosInf
      else if a < 0 then NegInf
      else NaN)"

fun add_number :: "number \<Rightarrow> number \<Rightarrow> number" where
  "add_number (Fin a) (Fin b) = Fin (a + b)"
| "add_number NaN _ = NaN"
| "add_number _ NaN = NaN"
| "add_number PosInf NegInf = NaN"
| "add_number NegInf PosInf = NaN"
| "add_number PosInf _ = PosInf"
| "add_number _ PosInf = PosInf"
| "add_number NegInf _ = NegInf"
| "add_number _ NegInf = NegInf"

fun positive :: "number \<Rightarrow> bool" where
  "positive (Fin a) = (a > 0)"
| "positive PosInf = True"
| "positive _ = False"

fun negative :: "number \<Rightarrow> bool" where
  "negative (Fin a) = (a < 0)"
| "negative NegInf = True"
| "negative _ = False"

fun ge_number :: "number \<Rightarrow> rat \<Rightarrow> bool" where
  "ge_number (Fin a) e = (a \<ge> e)"
| "ge_number PosInf e = True"
| "ge_number _ e = False"

fun le_number :: "number \<Rightarrow> rat \<Rightarrow> bool" where
  "le_number (Fin a) e = (a \<le> e)"
| "le_number NegInf e = True"
| "le_number _ e = False"

text \<open>\<open>Math.round\<close> rounds to the nearest integer, a half upwards; the result as text.\<close>

definition Math_round :: "rat \<Rightarrow> int" where
  "Math_round x = \<lfloor>x + 1 / 2\<rfloor>"

fun round_text :: "number \<Rightarrow> jsstring" where
  "round_text (Fin a) = Number_toString (Math_round a)"
| "round_text PosInf = js ''Infinity''"
| "round_text NegInf = js ''-Infinity''"
| "round_text NaN = js ''NaN''"

section \<open>The analysis result and the page\<close>

record sentiment_data =
  polarity :: rat
  subjectivity :: rat

text \<open>
  The two mappings are kept in the order \<open>Object.keys\<close>, \<open>Object.values\<close> and
  \<open>Object.entries\<close> enumerate them.
\<close>

record keywords_data =
  count :: int
  by_category :: "(jsstring \<times> int) list"
  words_found :: "jsstring list"

record analysis_result =
  persuasion_score :: rat
  persuasion_label :: jsstring
  ethical_score :: rat
  ethical_reflection :: jsstring
  sentiment :: sentiment_data
  emotions :: "(jsstring \<times> rat) list"
  persuasive_keywords :: keywords_data
  highlighted_text :: jsstring

text \<open>The children the keyword panel is given.\<close>

datatype node =
    CategoryItem jsstring jsstring
  | KeywordTag jsstring
  | Markup jsstring

text \<open>The configuration handed to the chart constructor (the parts that depend on data).\<close>

record chart =
  chart_type :: jsstring
  labels :: "jsstring list"
  data :: "rat list"
  backgroundColor :: "jsstring list"

datatype score_element = GaugeScore | EthicalScore

text \<open>A running \<open>setInterval\<close> of \<open>animateNumber\<close> with the variables it closes over.\<close>

record tween =
  tw_element :: score_element
  tw_current :: number
  tw_increment :: number
  tw_end :: rat

text \<open>A pending \<open>setTimeout\<close> callback with the values it closes over.\<close>

datatype timeout_cb =
    GaugeCb rat rat
  | EthicalCb rat rat
  | SentimentCb number number

datatype request = Post jsstring jsstring

record page =
  loadingSpinner_hidden :: bool
  resultsSection_hidden :: bool
  analyzeBtn_disabled :: bool
  persuasionLabel_text :: jsstring
  ethicalReflection_text :: jsstring
  highlightedText_html :: jsstring
  gaugeProgress_strokeDashoffset :: rat
  gaugeProgress_stroke :: jsstring
  gaugeScore_text :: jsstring
  ethicalCircle_strokeDashoffset :: rat
  ethicalCircle_stroke :: jsstring
  ethicalScore_fill :: jsstring
  ethicalScore_text :: jsstring
  polarityBar_width :: rat
  subjectivityBar_width :: rat
  polarityValue_text :: jsstring
  subjectivityValue_text :: jsstring
  keywordCount_text :: jsstring
  keywordCategories_children :: "node list"
  keywordsList_children :: "node list"
  emotionChart :: "nat option"
  charts :: "(nat \<times> chart) list"
  chart_counter :: nat
  timeouts :: "timeout_cb list"
  intervals :: "tween list"
  alerts :: "jsstring list"
  console_errors :: "jsstring list"
  requests :: "request list"

section \<open>Timers\<close>

text \<open>
  \<open>animateNumber(element, start, end, duration)\<close> computes the increment and starts a
  repeating timer; the timer is kept in \<open>intervals\<close> until its callback clears it.
\<close>

definition animateNumber :: "score_element \<Rightarrow> rat \<Rightarrow> rat \<Rightarrow> rat \<Rightarrow> page \<Rightarrow> page" where
  "animateNumber element start end' duration s =
     (let range = end' - start;
          increment = divide_number range (duration / 16);
          current = Fin start
      in s\<lparr>intervals := intervals s @
           [\<lparr>tw_element = element, tw_current = current, tw_increment = increment, tw_end = end'\<rparr>]\<rparr>)"

text \<open>
  One run of the interval callback on the closed-over variables: the new variables and
  whether \<open>clearInterval\<close> was called.
\<close>

definition tick :: "tween \<Rightarrow> tween \<times> bool" where
  "tick t =
     (let current = add_number (tw_current t) (tw_increment t) in
      if (positive (tw_increment t) \<and> ge_number current (tw_end t))
         \<or> (negative (tw_increment t) \<and> le_number current (tw_end t))
      then (t\<lparr>tw_current := Fin (tw_end t)\<rparr>, True)
      else (t\<lparr>tw_current := current\<rparr>, False))"

fun set_textContent :: "score_element \<Rightarrow> jsstring \<Rightarrow> page \<Rightarrow> page" where
  "set_textContent GaugeScore v s = s\<lparr>gaugeScore_text := v\<rparr>"
| "set_textContent EthicalScore v s = s\<lparr>ethicalScore_text := v\<rparr>"

text \<open>
  The timers of one period fire in the order they were started. Every running interval
  callback runs once; a cleared timer leaves the list.
\<close>

fun tick_all :: "tween list \<Rightarrow> page \<Rightarrow> tween list \<times> page" where
  "tick_all [] s = ([], s)"
| "tick_all (t # ts) s =
     (let (t', cleared) = tick t;
          s' = set_textContent (tw_element t') (round_text (tw_current t')) s;
          (ts', s'') = tick_all ts s'
      in (if cleared then ts' else t' # ts', s''))"

definition tick_intervals :: "page \<Rightarrow> page" where
  "tick_intervals s = (let (ts, s') = tick_all (intervals s) s in s'\<lparr>intervals := ts\<rparr>)"

text \<open>A single timer followed on its own: its variables after \<open>n\<close> ticks, while it runs.\<close>

fun ticks :: "nat \<Rightarrow> tween \<Rightarrow> tween \<times> bool" where
  "ticks 0 t = (t, False)"
| "ticks (Suc n) t = (let (t', cleared) = tick t in if cleared then (t', True) else ticks n t')"

text \<open>The callbacks of the three \<open>setTimeout\<close> calls.\<close>

definition gauge_callback :: "rat \<Rightarrow> rat \<Rightarrow> page \<Rightarrow> page" where
  "gauge_callback offset score s =
     (let s1 = s\<lparr>gaugeProgress_strokeDashoffset := offset\<rparr> in
      if score > 80 then s1\<lparr>gaugeProgress_stroke := js ''#ef4444''\<rparr>
      else if score > 50 then s1\<lparr>gaugeProgress_stroke := js ''#f59e0b''\<rparr>
      else s1\<lparr>gaugeProgress_stroke := js ''#6366f1''\<rparr>)"

definition ethical_callback :: "rat \<Rightarrow> rat \<Rightarrow> page \<Rightarrow> page" where
  "ethical_callback offset score s =
     (let s1 = s\<lparr>ethicalCircle_strokeDashoffset := offset\<rparr> in
      if score > 70
      then s1\<lparr>ethicalCircle_stroke := js ''#10b981'', ethicalScore_fill := js ''#10b981''\<rparr>
      else if score > 40
      then s1\<lparr>ethicalCircle_stroke := js ''#f59e0b'', ethicalScore_fill := js ''#f59e0b''\<rparr>
      else s1\<lparr>ethicalCircle_stroke := js ''#ef4444'', ethicalScore_fill := js ''#ef4444''\<rparr>)"

text \<open>
  The widths are set from the text \<open>`${polarityPercent}%`\<close>; a text that is not a
  length (\<open>NaN%\<close>, \<open>Infinity%\<close>) is ignored by the style and the width stays.
\<close>

definition sentiment_callback :: "number \<Rightarrow> number \<Rightarrow> page \<Rightarrow> page" where
  "sentiment_callback polarityPercent subjectivityPercent s =
     (let s1 = (case polarityPercent of Fin w \<Rightarrow> s\<lparr>polarityBar_width := w\<rparr> | _ \<Rightarrow> s)
      in case subjectivityPercent of Fin w \<Rightarrow> s1\<lparr>subjectivityBar_width := w\<rparr> | _ \<Rightarrow> s1)"

fun run_callback :: "timeout_cb \<Rightarrow> page \<Rightarrow> page" where
  "run_callback (GaugeCb offset score) s = gauge_callback offset score s"
| "run_callback (EthicalCb offset score) s = ethical_callback offset score s"
| "run_callback (SentimentCb pp sp) s = sentiment_callback pp sp s"

text \<open>All pending timeouts fire, in the order they were set (they share one delay).\<close>

definition fire_timeouts :: "page \<Rightarrow> page" where
  "fire_timeouts s = fold run_callback (timeouts s) (s\<lparr>timeouts := []\<rparr>)"

section \<open>Rendering\<close>

definition animateGauge :: "rat \<Rightarrow> page \<Rightarrow> page" where
  "animateGauge score s =
     (let circumference = 2512 / 10;
          offset = circumference - (score / 100) * circumference;
          s1 = s\<lparr>timeouts := timeouts s @ [GaugeCb offset score]\<rparr>
      in animateNumber GaugeScore 0 score 2000 s1)"

definition animateEthicalScore :: "rat \<Rightarrow> page \<Rightarrow> page" where
  "animateEthicalScore score s =
     (let circumference = 283;
          offset = circumference - (score / 100) * circumference;
          s1 = s\<lparr>timeouts := timeouts s @ [EthicalCb offset score]\<rparr>
      in animateNumber EthicalScore 0 score 2000 s1)"

definition displaySentiment :: "sentiment_data \<Rightarrow> page \<Rightarrow> page" where
  "displaySentiment sent s =
     (let polarityPercent = ((polarity sent + 1) / 2) * 100;
          subjectivityPercent = subjectivity sent * 100;
          s1 = s\<lparr>timeouts := timeouts s @ [SentimentCb (Fin polarityPercent) (Fin subjectivityPercent)]\<rparr>
      in s1\<lparr>polarityValue_text := toFixed 3 (polarity sent),
             subjectivityValue_text := toFixed 3 (subjectivity sent)\<rparr>)"

text \<open>
  The chart library keeps its live instances; \<open>destroy\<close> releases one and the
  constructor registers a new one. \<open>emotionChart\<close> is the script's global variable.
\<close>

definition Chart_destroy :: "nat \<Rightarrow> page \<Rightarrow> page" where
  "Chart_destroy i s = s\<lparr>charts := filter (\<lambda>(j, c). j \<noteq> i) (charts s)\<rparr>"

definition Chart_new :: "chart \<Rightarrow> page \<Rightarrow> nat \<times> page" where
  "Chart_new cfg s =
     (chart_counter s,
      s\<lparr>charts := charts s @ [(chart_counter s, cfg)], chart_counter := Suc (chart_counter s)\<rparr>)"

definition displayEmotionChart :: "(jsstring \<times> rat) list \<Rightarrow> page \<Rightarrow> page" where
  "displayEmotionChart emos s =
     (let s1 = (case emotionChart s of Some i \<Rightarrow> Chart_destroy i s | None \<Rightarrow> s);
          labels' = map (\<lambda>key. capitalize key) (map fst emos);
          data' = map snd emos;
          (i, s2) = Chart_new \<lparr>chart_type = js ''doughnut'', labels = labels', data = data',
                      backgroundColor = [js ''#10b981'', js ''#ef4444'', js ''#dc2626'', js ''#3b82f6'']\<rparr> s1
      in s2\<lparr>emotionChart := Some i\<rparr>)"

text \<open>
  What the chart draws from a configuration: segment \<open>i\<close> has the \<open>i\<close>-th label and
  value, and the \<open>i\<close>-th entry of the colour array (none is given beyond its end); the
  tooltip callback formats a segment's label and value.
\<close>

definition segment_color :: "chart \<Rightarrow> nat \<Rightarrow> jsstring option" where
  "segment_color cfg i =
     (if i < length (backgroundColor cfg) then Some (backgroundColor cfg ! i) else None)"

definition segments :: "chart \<Rightarrow> (jsstring \<times> rat \<times> jsstring option) list" where
  "segments cfg =
     map (\<lambda>i. (labels cfg ! i, data cfg ! i, segment_color cfg i))
       [0 ..< min (length (labels cfg)) (length (data cfg))]"

definition tooltip_label :: "jsstring \<Rightarrow> rat \<Rightarrow> jsstring" where
  "tooltip_label label parsed = label @ js '': '' @ toFixed 1 parsed @ js ''%''"

text \<open>The \<open>for\<close> loop over \<open>Object.entries(keywordsData.by_category)\<close>.\<close>

fun category_loop :: "(jsstring \<times> int) list \<Rightarrow> node list \<Rightarrow> node list" where
  "category_loop [] children = children"
| "category_loop ((category, count') # rest) children =
     category_loop rest
       (if count' > 0
        then children @ [CategoryItem (replace_first 0x5F 0x20 category) (Number_toString count')]
        else children)"

text \<open>\<open>keywordsData.words_found.forEach\<close>.\<close>

fun words_loop :: "jsstring list \<Rightarrow> node list \<Rightarrow> node list" where
  "words_loop [] children = children"
| "words_loop (word # rest) children = words_loop rest (children @ [KeywordTag word])"

definition none_found :: node where
  \<open>none_found = Markup (js ''<p style="color: #718096;">No persuasive keywords detected.</p>'')\<close>

definition displayKeywords :: "keywords_data \<Rightarrow> page \<Rightarrow> page" where
  "displayKeywords keywordsData s =
     (let s1 = s\<lparr>keywordCount_text := Number_toString (count keywordsData)\<rparr>;
          s2 = s1\<lparr>keywordCategories_children := []\<rparr>;
          s3 = s2\<lparr>keywordCategories_children :=
                   category_loop (by_category keywordsData) (keywordCategories_children s2)\<rparr>;
          s4 = s3\<lparr>keywordsList_children := []\<rparr>
      in if length (words_found keywordsData) > 0
         then s4\<lparr>keywordsList_children := words_loop (words_found keywordsData) (keywordsList_children s4)\<rparr>
         else s4\<lparr>keywordsList_children := [none_found]\<rparr>)"

definition displayResults :: "analysis_result \<Rightarrow> page \<Rightarrow> page" where
  "displayResults d s =
     (let s1 = animateGauge (persuasion_score d) s;
          s2 = s1\<lparr>persuasionLabel_text := persuasion_label d\<rparr>;
          s3 = animateEthicalScore (ethical_score d) s2;
          s4 = s3\<lparr>ethicalReflection_text := ethical_reflection d\<rparr>;
          s5 = displaySentiment (sentiment d) s4;
          s6 = displayEmotionChart (emotions d) s5;
          s7 = displayKeywords (persuasive_keywords d) s6
      in s7\<lparr>highlightedText_html := highlighted_text d\<rparr>)"

section \<open>Rendering a parsed body\<close>

text \<open>
  The functions above take their argument at its declared type. A parsed body need not
  have it: any value the script dereferences may be absent (\<open>undefined\<close>) or
  \<open>null\<close>. These are the body itself, \<open>sentiment\<close> and its two numbers (on which
  \<open>toFixed\<close> is called), \<open>emotions\<close>, \<open>persuasive_keywords\<close>, \<open>by_category\<close> and
  \<open>words_found\<close>. Reading a property of a missing value, or handing it to
  \<open>Object.keys\<close> or \<open>Object.entries\<close>, throws a TypeError; the statements before it
  have taken effect. The values the script only copies or computes with (scores, texts,
  counts) are taken at their declared types.
\<close>

datatype 'a jsval = Undefined | Null | Val 'a

text \<open>The messages of the two TypeErrors, in the wording of the V8 engine.\<close>

fun missing_name :: "'a jsval \<Rightarrow> jsstring" where
  "missing_name Undefined = js ''undefined''"
| "missing_name Null = js ''null''"
| "missing_name (Val v) = []"

definition read_error :: "'a jsval \<Rightarrow> string \<Rightarrow> jsstring" where
  "read_error base prop =
     js ''Cannot read properties of '' @ missing_name base @ js '' (reading '' @ [0x27] @ js prop
       @ [0x27] @ js '')''"

definition convert_error :: jsstring where
  "convert_error = js ''Cannot convert undefined or null to object''"

record sentiment_body =
  polarity_val :: "rat jsval"
  subjectivity_val :: "rat jsval"

record keywords_body =
  count_val :: int
  by_category_val :: "(jsstring \<times> int) list jsval"
  words_found_val :: "jsstring list jsval"

record analysis_body =
  persuasion_score_val :: rat
  persuasion_label_val :: jsstring
  ethical_score_val :: rat
  ethical_reflection_val :: jsstring
  sentiment_val :: "sentiment_body jsval"
  emotions_val :: "(jsstring \<times> rat) list jsval"
  persuasive_keywords_val :: "keywords_body jsval"
  highlighted_text_val :: jsstring

text \<open>
  A function on a body either throws (the message, and the page at that point) or
  completes. In arithmetic \<open>null\<close> counts as 0 and \<open>undefined\<close> gives NaN.
\<close>

definition displaySentiment_body :: "sentiment_body jsval \<Rightarrow> page \<Rightarrow> (jsstring \<times> page) + page" where
  "displaySentiment_body sent s =
     (case sent of
        Val b \<Rightarrow>
          (let polarityPercent =
                 (case polarity_val b of
                    Val p \<Rightarrow> Fin (((p + 1) / 2) * 100)
                  | Null \<Rightarrow> Fin (((0 + 1) / 2) * 100)
                  | Undefined \<Rightarrow> NaN);
               subjectivityPercent =
                 (case subjectivity_val b of
                    Val q \<Rightarrow> Fin (q * 100)
                  | Null \<Rightarrow> Fin (0 * 100)
                  | Undefined \<Rightarrow> NaN);
               s1 = s\<lparr>timeouts := timeouts s @ [SentimentCb polarityPercent subjectivityPercent]\<rparr>
           in case polarity_val b of
                Val p \<Rightarrow>
                  (let s2 = s1\<lparr>polarityValue_text := toFixed 3 p\<rparr>
                   in case subjectivity_val b of
                        Val q \<Rightarrow> Inr (s2\<lparr>subjectivityValue_text := toFixed 3 q\<rparr>)
                      | _ \<Rightarrow> Inl (read_error (subjectivity_val b) ''toFixed'', s2))
              | _ \<Rightarrow> Inl (read_error (polarity_val b) ''toFixed'', s1))
      | _ \<Rightarrow> Inl (read_error sent ''polarity'', s))"

definition displayEmotionChart_body ::
    "(jsstring \<times> rat) list jsval \<Rightarrow> page \<Rightarrow> (jsstring \<times> page) + page" where
  "displayEmotionChart_body emos s =
     (let s1 = (case emotionChart s of Some i \<Rightarrow> Chart_destroy i s | None \<Rightarrow> s)
      in case emos of
           Val e \<Rightarrow>
             (let labels' = map (\<lambda>key. capitalize key) (map fst e);
                  data' = map snd e;
                  (i, s2) = Chart_new \<lparr>chart_type = js ''doughnut'', labels = labels', data = data',
                              backgroundColor = [js ''#10b981'', js ''#ef4444'', js ''#dc2626'', js ''#3b82f6'']\<rparr> s1
              in Inr (s2\<lparr>emotionChart := Some i\<rparr>))
         | _ \<Rightarrow> Inl (convert_error, s1))"

definition displayKeywords_body :: "keywords_body jsval \<Rightarrow> page \<Rightarrow> (jsstring \<times> page) + page" where
  "displayKeywords_body keywordsData s =
     (case keywordsData of
        Val k \<Rightarrow>
          (let s1 = s\<lparr>keywordCount_text := Number_toString (count_val k)\<rparr>;
               s2 = s1\<lparr>keywordCategories_children := []\<rparr>
           in case by_category_val k of
                Val entries \<Rightarrow>
                  (let s3 = s2\<lparr>keywordCategories_children :=
                                category_loop entries (keywordCategories_children s2)\<rparr>;
                       s4 = s3\<lparr>keywordsList_children := []\<rparr>
                   in case words_found_val k of
                        Val ws \<Rightarrow>
                          Inr (if length ws > 0
                               then s4\<lparr>keywordsList_children := words_loop ws (keywordsList_children s4)\<rparr>
                               else s4\<lparr>keywordsList_children := [none_found]\<rparr>)
                      | _ \<Rightarrow> Inl (read_error (words_found_val k) ''length'', s4))
              | _ \<Rightarrow> Inl (convert_error, s2))
      | _ \<Rightarrow> Inl (read_error keywordsData ''count'', s))"

definition displayResults_body :: "analysis_body jsval \<Rightarrow> page \<Rightarrow> (jsstring \<times> page) + page" where
  "displayResults_body parsed s =
     (case parsed of
        Val d \<Rightarrow>
          (let s1 = animateGauge (persuasion_score_val d) s;
               s2 = s1\<lparr>persuasionLabel_text := persuasion_label_val d\<rparr>;
               s3 = animateEthicalScore (ethical_score_val d) s2;
               s4 = s3\<lparr>ethicalReflection_text := ethical_reflection_val d\<rparr>
           in case displaySentiment_body (sentiment_val d) s4 of
                Inl thrown \<Rightarrow> Inl thrown
              | Inr s5 \<Rightarrow>
                  (case displayEmotionChart_body (emotions_val d) s5 of
                     Inl thrown \<Rightarrow> Inl thrown
                   | Inr s6 \<Rightarrow>
                       (case displayKeywords_body (persuasive_keywords_val d) s6 of
                          Inl thrown \<Rightarrow> Inl thrown
                        | Inr s7 \<Rightarrow> Inr (s7\<lparr>highlightedText_html := highlighted_text_val d\<rparr>))))
      | _ \<Rightarrow> Inl (read_error parsed ''persuasion_score'', s))"

text \<open>A result of the declared type as a body in which nothing is missing.\<close>

definition body_of :: "analysis_result \<Rightarrow> analysis_body" where
  "body_of d =
     \<lparr>persuasion_score_val = persuasion_score d, persuasion_label_val = persuasion_label d,
      ethical_score_val = ethical_score d, ethical_reflection_val = ethical_reflection d,
      sentiment_val = Val \<lparr>polarity_val = Val (polarity (sentiment d)),
                           subjectivity_val = Val (subjectivity (sentiment d))\<rparr>,
      emotions_val = Val (emotions d),
      persuasive_keywords_val =
        Val \<lparr>count_val = count (persuasive_keywords d),
             by_category_val = Val (by_category (persuasive_keywords d)),
             words_found_val = Val (words_found (persuasive_keywords d))\<rparr>,
      highlighted_text_val = highlighted_text d\<rparr>"

section \<open>The analyze trigger\<close>

text \<open>
  The environment's answer to the one request: \<open>fetch\<close> rejects, or it resolves to a
  response with \<open>ok\<close> false or true, whose \<open>json()\<close> rejects or yields a value. The
  value of an error response is \<open>null\<close>, or it has an \<open>error\<close> property or none (a
  value that is neither \<open>null\<close> nor an object has none); the value of a success
  response is a body as above.

  The \<open>error\<close> property as the script observes it: absent, a string, or a value of
  another type, of which \<open>error.error || 'Analysis failed'\<close> and \<open>new Error(...)\<close>
  use only whether it is truthy and its conversion to a string (\<open>null\<close>, 0 and
  \<open>false\<close> are falsy; 42 is truthy with the text \<open>42\<close>; an array is truthy).
\<close>

datatype error_field = Absent | Text jsstring | Other bool jsstring

datatype 'a json_body = Unparseable jsstring | Json 'a

datatype fetch_outcome =
    FetchRejected jsstring
  | NotOkResponse "error_field jsval json_body"
  | OkResponse "analysis_body jsval json_body"

text \<open>
  The \<open>try\<close> block: either an error is thrown (its message, and the page at that point)
  or the block completes. After the request an error is thrown by \<open>json()\<close>, by the
  read of \<open>error.error\<close> on a missing value, by \<open>throw new Error(...)\<close>, or inside
  \<open>displayResults\<close> once the results area has been revealed.
\<close>

definition try_block :: "jsstring \<Rightarrow> fetch_outcome \<Rightarrow> page \<Rightarrow> (jsstring \<times> page) + page" where
  "try_block textInput outcome s =
     (let s1 = s\<lparr>requests := requests s @ [Post (js ''/analyze'') textInput]\<rparr> in
      case outcome of
        FetchRejected msg \<Rightarrow> Inl (msg, s1)
      | NotOkResponse body \<Rightarrow>
          (case body of
             Unparseable msg \<Rightarrow> Inl (msg, s1)
           | Json err \<Rightarrow>
               (case err of
                  Val payload \<Rightarrow>
                    Inl (case payload of
                           Absent \<Rightarrow> js ''Analysis failed''
                         | Text m \<Rightarrow> if m = [] then js ''Analysis failed'' else m
                         | Other truthy text \<Rightarrow> if truthy then text else js ''Analysis failed'', s1)
                | _ \<Rightarrow> Inl (read_error err ''error'', s1)))
      | OkResponse body \<Rightarrow>
          (case body of
             Unparseable msg \<Rightarrow> Inl (msg, s1)
           | Json parsed \<Rightarrow>
               displayResults_body parsed
                 (s1\<lparr>loadingSpinner_hidden := True, resultsSection_hidden := False\<rparr>)))"

definition analyze_click :: "jsstring \<Rightarrow> fetch_outcome \<Rightarrow> page \<Rightarrow> page" where
  "analyze_click raw outcome s =
     (let textInput = trim raw in
      if textInput = [] \<or> length textInput < 10
      then s\<lparr>alerts := alerts s @ [js ''Please enter at least 10 characters of text to analyze.'']\<rparr>
      else
        (let s1 = s\<lparr>loadingSpinner_hidden := False, resultsSection_hidden := True,
                     analyzeBtn_disabled := True\<rparr>;
             s2 = (case try_block textInput outcome s1 of
                     Inr s' \<Rightarrow> s'
                   | Inl (message, s') \<Rightarrow>
                       s'\<lparr>console_errors := console_errors s' @ [message],
                          alerts := alerts s' @ [js ''Error: '' @ message],
                          loadingSpinner_hidden := True\<rparr>)
         in s2\<lparr>analyzeBtn_disabled := False\<rparr>))"

text \<open>
  The page when the script has loaded: \<open>emotionChart\<close> is \<open>null\<close> and no timer runs.
  (The contents of the elements come from the document, which the script does not set.)
\<close>

definition loaded_page :: page where
  "loaded_page =
     \<lparr>loadingSpinner_hidden = True, resultsSection_hidden = True, analyzeBtn_disabled = False,
      persuasionLabel_text = [], ethicalReflection_text = [], highlightedText_html = [],
      gaugeProgress_strokeDashoffset = 0, gaugeProgress_stroke = [], gaugeScore_text = [],
      ethicalCircle_strokeDashoffset = 0, ethicalCircle_stroke = [], ethicalScore_fill = [],
      ethicalScore_text = [], polarityBar_width = 0, subjectivityBar_width = 0,
      polarityValue_text = [], subjectivityValue_text = [], keywordCount_text = [],
      keywordCategories_children = [], keywordsList_children = [],
      emotionChart = None, charts = [], chart_counter = 0,
      timeouts = [], intervals = [], alerts = [], console_errors = [], requests = []\<rparr>"

text \<open>The outcomes on which an analysis attempt fails.\<close>

fun failed :: "fetch_outcome \<Rightarrow> bool" where
  "failed (FetchRejected msg) = True"
| "failed (NotOkResponse body) = True"
| "failed (OkResponse (Unparseable msg)) = True"
| "failed (OkResponse (Json d)) = False"

text \<open>The page a function on a body leaves, thrown or completed.\<close>

fun page_of :: "(jsstring \<times> page) + page \<Rightarrow> page" where
  "page_of (Inl (message, s)) = s"
| "page_of (Inr s) = s"

text \<open>A success body from which \<open>emotions\<close> is missing.\<close>

definition no_emotions_body :: analysis_body where
  "no_emotions_body =
     \<lparr>persuasion_score_val = 72, persuasion_label_val = js ''High'', ethical_score_val = 40,
      ethical_reflection_val = js ''Loaded language.'',
      sentiment_val = Val \<lparr>polarity_val = Val (1 / 4), subjectivity_val = Val (1 / 2)\<rparr>,
      emotions_val = Undefined,
      persuasive_keywords_val =
        Val \<lparr>count_val = 1, by_category_val = Val [(js ''urgency_words'', 1)],
             words_found_val = Val [js ''now'']\<rparr>,
      highlighted_text_val = js ''<mark>now</mark>''\<rparr>"


section \<open>Reading the page\<close>

text \<open>
  Decimal notation read back: an optional minus sign, digits, a point and digits give
  the value and the number of digits after the point.
\<close>

definition is_digit :: "16 word \<Rightarrow> bool" where
  "is_digit c \<longleftrightarrow> 0x30 \<le> c \<and> c \<le> 0x39"

definition decimal_value :: "jsstring \<Rightarrow> nat" where
  "decimal_value ds = foldl (\<lambda>acc c. 10 * acc + unat (c - 0x30)) 0 ds"

definition read_fixed :: "jsstring \<Rightarrow> (rat \<times> nat) option" where
  "read_fixed text =
     (let (neg, body) = (case text of [] \<Rightarrow> (False, [])
                         | c # cs \<Rightarrow> if c = 0x2D then (True, cs) else (False, text));
          a = takeWhile is_digit body;
          rest = dropWhile is_digit body
      in case rest of
           [] \<Rightarrow> None
         | c # b \<Rightarrow>
             if c = 0x2E \<and> a \<noteq> [] \<and> b \<noteq> [] \<and> list_all is_digit b
             then Some ((if neg then - 1 else 1) * of_nat (decimal_value (a @ b)) / 10 ^ length b, length b)
             else None)"

text \<open>The configuration of the chart the global variable refers to.\<close>

definition current_chart :: "page \<Rightarrow> chart option" where
  "current_chart s = (case emotionChart s of None \<Rightarrow> None | Some i \<Rightarrow> map_of (charts s) i)"

text \<open>The variables \<open>animateNumber\<close> sets up for the gauge when the score is 0.\<close>

definition stalled :: tween where
  "stalled = \<lparr>tw_element = GaugeScore, tw_current = Fin 0, tw_increment = Fin 0, tw_end = 0\<rparr>"

section \<open>Rendering twice: the visible state and the timer events\<close>

text \<open>
  The charts obey the script's discipline when every live chart is the one the global
  variable refers to and carries an identifier already handed out.
\<close>

definition chart_inv :: "page \<Rightarrow> bool" where
  "chart_inv s \<longleftrightarrow> list_all (\<lambda>(i, c). emotionChart s = Some i \<and> i < chart_counter s) (charts s)"

text \<open>
  What a user can see: every component of the page except the timer queues, the chart
  variable and the identifiers of the charts, together with the configurations of the
  live charts.
\<close>

definition visible :: "page \<Rightarrow> page \<times> chart list" where
  "visible s =
     (s\<lparr>emotionChart := None, charts := [], chart_counter := 0, timeouts := [], intervals := []\<rparr>,
      map snd (charts s))"

text \<open>
  After a rendering the page changes by timer events only: the pending timeouts fire, or
  the running intervals tick once.
\<close>

datatype event = Timeouts | Tick

fun run_event :: "event \<Rightarrow> page \<Rightarrow> page" where
  "run_event Timeouts s = fire_timeouts s"
| "run_event Tick s = tick_intervals s"

text \<open>
  The timeouts one rendering sets, the tweens it starts and the chart configuration it
  builds, as functions of the result.
\<close>

definition pending :: "analysis_result \<Rightarrow> timeout_cb list" where
  "pending d =
     [GaugeCb (2512 / 10 - persuasion_score d / 100 * (2512 / 10)) (persuasion_score d),
      EthicalCb (283 - ethical_score d / 100 * 283) (ethical_score d),
      SentimentCb (Fin ((polarity (sentiment d) + 1) / 2 * 100)) (Fin (subjectivity (sentiment d) * 100))]"

definition started :: "analysis_result \<Rightarrow> tween list" where
  "started d =
     [\<lparr>tw_element = GaugeScore, tw_current = Fin 0,
       tw_increment = divide_number (persuasion_score d - 0) (2000 / 16), tw_end = persuasion_score d\<rparr>,
      \<lparr>tw_element = EthicalScore, tw_current = Fin 0,
       tw_increment = divide_number (ethical_score d - 0) (2000 / 16), tw_end = ethical_score d\<rparr>]"

definition emotion_config :: "(jsstring \<times> rat) list \<Rightarrow> chart" where
  "emotion_config emos =
     \<lparr>chart_type = js ''doughnut'', labels = map capitalize (map fst emos), data = map snd emos,
      backgroundColor = [js ''#10b981'', js ''#ef4444'', js ''#dc2626'', js ''#3b82f6'']\<rparr>"

text \<open>
  A round of ticks split into its two effects: what is written to the page and which
  tweens keep running. \<open>last_write\<close> is the text an element holds after the round.
\<close>

definition shown :: "tween \<Rightarrow> jsstring" where
  "shown t = round_text (tw_current (fst (tick t)))"

fun advance :: "tween list \<Rightarrow> tween list" where
  "advance [] = []"
| "advance (t # ts) = (if snd (tick t) then advance ts else fst (tick t) # advance ts)"

fun writes :: "tween list \<Rightarrow> page \<Rightarrow> page" where
  "writes [] s = s"
| "writes (t # ts) s = writes ts (set_textContent (tw_element t) (shown t) s)"

fun last_write :: "score_element \<Rightarrow> tween list \<Rightarrow> jsstring \<Rightarrow> jsstring" where
  "last_write el [] v = v"
| "last_write el (t # ts) v = last_write el ts (if tw_element t = el then shown t else v)"

text \<open>
  Two pages run in lockstep when they look alike and the second carries a second copy of
  the latest timeouts and tweens of the first.
\<close>

definition lockstep :: "analysis_result \<Rightarrow> page \<Rightarrow> page \<Rightarrow> bool" where
  "lockstep d a b \<longleftrightarrow>
     visible a = visible b
     \<and> (\<exists>X P. (P = [] \<or> P = pending d) \<and> timeouts a = X @ P \<and> timeouts b = X @ P @ P)
     \<and> (\<exists>Y Q. intervals a = Y @ Q \<and> intervals b = Y @ Q @ Q)"

text \<open>A result used in examples.\<close>

definition sample_result :: analysis_result where
  "sample_result =
     \<lparr>persuasion_score = 0, persuasion_label = js ''Low'', ethical_score = 85,
      ethical_reflection = js ''Balanced.'',
      sentiment = \<lparr>polarity = 1 / 4, subjectivity = 1 / 2\<rparr>,
      emotions = [(js ''joy'', 60), (js ''fear'', 40)],
      persuasive_keywords = \<lparr>count = 2, by_category = [(js ''urgency_words'', 2), (js ''fear'', 0)],
                             words_found = [js ''now'', js ''hurry'']\<rparr>,
      highlighted_text = js ''<mark>now</mark>''\<rparr>"

section \<open>Validation and the request lifecycle\<close>

lemma displayResults_flags:
  "loadingSpinner_hidden (displayResults d s) = loadingSpinner_hidden s"
  "resultsSection_hidden (displayResults d s) = resultsSection_hidden s"
  "analyzeBtn_disabled (displayResults d s) = analyzeBtn_disabled s"
  "alerts (displayResults d s) = alerts s"
  "requests (displayResults d s) = requests s"
  "console_errors (displayResults d s) = console_errors s"
  by (simp_all add: displayResults_def displayKeywords_def displayEmotionChart_def Chart_new_def
      Chart_destroy_def displaySentiment_def animateEthicalScore_def animateGauge_def
      animateNumber_def Let_def split: option.splits)

text \<open>On a body in which nothing is missing the renderer completes, as on the typed result.\<close>

lemma displaySentiment_body_complete:
  "displaySentiment_body (Val \<lparr>polarity_val = Val (polarity sent), subjectivity_val = Val (subjectivity sent)\<rparr>) s
     = Inr (displaySentiment sent s)"
  by (simp add: displaySentiment_body_def displaySentiment_def Let_def)

lemma displayEmotionChart_body_complete:
  "displayEmotionChart_body (Val emos) s = Inr (displayEmotionChart emos s)"
  by (simp add: displayEmotionChart_body_def displayEmotionChart_def Let_def split_beta)

lemma displayKeywords_body_complete:
  "displayKeywords_body (Val \<lparr>count_val = count k, by_category_val = Val (by_category k),
                              words_found_val = Val (words_found k)\<rparr>) s
     = Inr (displayKeywords k s)"
  by (simp add: displayKeywords_body_def displayKeywords_def Let_def)

lemma displayResults_body_complete:
  "displayResults_body (Val (body_of d)) s = Inr (displayResults d s)"
  by (simp add: displayResults_body_def displayResults_def body_of_def Let_def
      displaySentiment_body_complete displayEmotionChart_body_complete displayKeywords_body_complete)

text \<open>
  Whether it throws or completes, the renderer leaves the indicator, the results area,
  the trigger, the notices, the log and the requests as they are.
\<close>

lemma displaySentiment_body_flags:
  "loadingSpinner_hidden (page_of (displaySentiment_body sent s)) = loadingSpinner_hidden s"
  "resultsSection_hidden (page_of (displaySentiment_body sent s)) = resultsSection_hidden s"
  "alerts (page_of (displaySentiment_body sent s)) = alerts s"
  "requests (page_of (displaySentiment_body sent s)) = requests s"
  "console_errors (page_of (displaySentiment_body sent s)) = console_errors s"
  by (simp_all add: displaySentiment_body_def Let_def split: jsval.splits)

lemma displayEmotionChart_body_flags:
  "loadingSpinner_hidden (page_of (displayEmotionChart_body emos s)) = loadingSpinner_hidden s"
  "resultsSection_hidden (page_of (displayEmotionChart_body emos s)) = resultsSection_hidden s"
  "alerts (page_of (displayEmotionChart_body emos s)) = alerts s"
  "requests (page_of (displayEmotionChart_body emos s)) = requests s"
  "console_errors (page_of (displayEmotionChart_body emos s)) = console_errors s"
  by (simp_all add: displayEmotionChart_body_def Chart_new_def Chart_destroy_def Let_def
      split: jsval.splits option.splits)

lemma displayKeywords_body_flags:
  "loadingSpinner_hidden (page_of (displayKeywords_body kd s)) = loadingSpinner_hidden s"
  "resultsSection_hidden (page_of (displayKeywords_body kd s)) = resultsSection_hidden s"
  "alerts (page_of (displayKeywords_body kd s)) = alerts s"
  "requests (page_of (displayKeywords_body kd s)) = requests s"
  "console_errors (page_of (displayKeywords_body kd s)) = console_errors s"
  by (simp_all add: displayKeywords_body_def Let_def split: jsval.splits)

lemma animate_flags:
  "loadingSpinner_hidden (animateGauge sc s) = loadingSpinner_hidden s"
  "resultsSection_hidden (animateGauge sc s) = resultsSection_hidden s"
  "alerts (animateGauge sc s) = alerts s"
  "requests (animateGauge sc s) = requests s"
  "console_errors (animateGauge sc s) = console_errors s"
  "loadingSpinner_hidden (animateEthicalScore sc s) = loadingSpinner_hidden s"
  "resultsSection_hidden (animateEthicalScore sc s) = resultsSection_hidden s"
  "alerts (animateEthicalScore sc s) = alerts s"
  "requests (animateEthicalScore sc s) = requests s"
  "console_errors (animateEthicalScore sc s) = console_errors s"
  by (simp_all add: animateGauge_def animateEthicalScore_def animateNumber_def Let_def)

lemma page_of_cases:
  "page_of r = (case r of Inl thrown \<Rightarrow> snd thrown | Inr s \<Rightarrow> s)"
  by (cases r) auto

lemma displayResults_body_flags:
  "loadingSpinner_hidden (page_of (displayResults_body parsed s)) = loadingSpinner_hidden s"
  "resultsSection_hidden (page_of (displayResults_body parsed s)) = resultsSection_hidden s"
  "alerts (page_of (displayResults_body parsed s)) = alerts s"
  "requests (page_of (displayResults_body parsed s)) = requests s"
  "console_errors (page_of (displayResults_body parsed s)) = console_errors s"
proof -
  have stage: "f (page_of (displayResults_body parsed s)) = f s"
    if sen: "\<And>v t. f (page_of (displaySentiment_body v t)) = f t"
      and emo: "\<And>v t. f (page_of (displayEmotionChart_body v t)) = f t"
      and key: "\<And>v t. f (page_of (displayKeywords_body v t)) = f t"
      and gau: "\<And>v t. f (animateGauge v t) = f t"
      and eth: "\<And>v t. f (animateEthicalScore v t) = f t"
      and lab: "\<And>v t. f (t\<lparr>persuasionLabel_text := v\<rparr>) = f t"
      and ref: "\<And>v t. f (t\<lparr>ethicalReflection_text := v\<rparr>) = f t"
      and hig: "\<And>v t. f (t\<lparr>highlightedText_html := v\<rparr>) = f t"
    for f :: "page \<Rightarrow> 'a"
  proof (cases parsed)
    case (Val d)
    define s4 where "s4 = (animateEthicalScore (ethical_score_val d)
        ((animateGauge (persuasion_score_val d) s)\<lparr>persuasionLabel_text := persuasion_label_val d\<rparr>))
        \<lparr>ethicalReflection_text := ethical_reflection_val d\<rparr>"
    have s4: "f s4 = f s"
      by (simp add: s4_def gau eth lab ref)
    have unfold: "displayResults_body parsed s =
        (case displaySentiment_body (sentiment_val d) s4 of
           Inl thrown \<Rightarrow> Inl thrown
         | Inr s5 \<Rightarrow>
             (case displayEmotionChart_body (emotions_val d) s5 of
                Inl thrown \<Rightarrow> Inl thrown
              | Inr s6 \<Rightarrow>
                  (case displayKeywords_body (persuasive_keywords_val d) s6 of
                     Inl thrown \<Rightarrow> Inl thrown
                   | Inr s7 \<Rightarrow> Inr (s7\<lparr>highlightedText_html := highlighted_text_val d\<rparr>))))"
      by (simp add: displayResults_body_def Val s4_def Let_def)
    show ?thesis
    proof (cases "displaySentiment_body (sentiment_val d) s4")
      case (Inl thrown)
      then show ?thesis
        using sen [of "sentiment_val d" s4] s4 by (simp add: unfold)
    next
      case sen5: (Inr s5)
      then have s5: "f s5 = f s"
        using sen [of "sentiment_val d" s4] s4 by simp
      show ?thesis
      proof (cases "displayEmotionChart_body (emotions_val d) s5")
        case (Inl thrown)
        then show ?thesis
          using emo [of "emotions_val d" s5] s5 sen5 by (simp add: unfold)
      next
        case emo6: (Inr s6)
        then have s6: "f s6 = f s"
          using emo [of "emotions_val d" s5] s5 by simp
        show ?thesis
        proof (cases "displayKeywords_body (persuasive_keywords_val d) s6")
          case (Inl thrown)
          then show ?thesis
            using key [of "persuasive_keywords_val d" s6] s6 sen5 emo6 by (simp add: unfold)
        next
          case (Inr s7)
          then show ?thesis
            using key [of "persuasive_keywords_val d" s6] s6 sen5 emo6 by (simp add: unfold hig)
        qed
      qed
    qed
  qed (simp_all add: displayResults_body_def)
  show "loadingSpinner_hidden (page_of (displayResults_body parsed s)) = loadingSpinner_hidden s"
    by (rule stage) (simp_all add: displaySentiment_body_flags displayEmotionChart_body_flags
        displayKeywords_body_flags animate_flags)
  show "resultsSection_hidden (page_of (displayResults_body parsed s)) = resultsSection_hidden s"
    by (rule stage) (simp_all add: displaySentiment_body_flags displayEmotionChart_body_flags
        displayKeywords_body_flags animate_flags)
  show "alerts (page_of (displayResults_body parsed s)) = alerts s"
    by (rule stage) (simp_all add: displaySentiment_body_flags displayEmotionChart_body_flags
        displayKeywords_body_flags animate_flags)
  show "requests (page_of (displayResults_body parsed s)) = requests s"
    by (rule stage) (simp_all add: displaySentiment_body_flags displayEmotionChart_body_flags
        displayKeywords_body_flags animate_flags)
  show "console_errors (page_of (displayResults_body parsed s)) = console_errors s"
    by (rule stage) (simp_all add: displaySentiment_body_flags displayEmotionChart_body_flags
        displayKeywords_body_flags animate_flags)
qed

lemma sample_short: "length (trim (js ''  hi  '')) < 10"
  by (simp add: trim_def js_def isWhiteSpace_def)

lemma sample_long: "\<not> length (trim (js '' 0123456789 '')) < 10"
  by (simp add: trim_def js_def isWhiteSpace_def)

lemma sample_nonempty: "trim (js '' 0123456789 '') \<noteq> []"
  by (simp add: trim_def js_def isWhiteSpace_def)

text \<open>
  C1. Whenever the trimmed input has fewer than 10 code units, a click on the analyze
  trigger shows the blocking notice and sends no request: the list of requests issued to
  \<open>/analyze\<close> is the one before the click, whatever the network would have answered.
\<close>

theorem short_input_blocked:
  "length (trim raw) < 10 \<Longrightarrow>
     alerts (analyze_click raw outcome s)
       = alerts s @ [js ''Please enter at least 10 characters of text to analyze.'']
     \<and> requests (analyze_click raw outcome s) = requests s"
  by (simp add: analyze_click_def Let_def)

theorem short_input_blocked_witness:
  "length (trim (js ''  hi  '')) < 10
   \<and> alerts (analyze_click (js ''  hi  '') (FetchRejected []) loaded_page)
       = [js ''Please enter at least 10 characters of text to analyze.'']
   \<and> requests (analyze_click (js ''  hi  '') (FetchRejected []) loaded_page) = []"
  using short_input_blocked [OF sample_short, of "FetchRejected []" loaded_page] sample_short
  by (simp add: loaded_page_def)

text \<open>
  C10. When validation rejects the input, the handler returns before any other state
  change: the trigger stays as it was (enabled), the loading indicator and the results
  area keep their visibility, the chart variable and the live charts are untouched; the
  page differs from the one before the click in the list of notices only.
\<close>

theorem rejected_click_frame:
  "length (trim raw) < 10 \<Longrightarrow>
     analyzeBtn_disabled (analyze_click raw outcome s) = analyzeBtn_disabled s
     \<and> loadingSpinner_hidden (analyze_click raw outcome s) = loadingSpinner_hidden s
     \<and> resultsSection_hidden (analyze_click raw outcome s) = resultsSection_hidden s
     \<and> emotionChart (analyze_click raw outcome s) = emotionChart s
     \<and> charts (analyze_click raw outcome s) = charts s
     \<and> analyze_click raw outcome s = s\<lparr>alerts := alerts (analyze_click raw outcome s)\<rparr>"
  by (simp add: analyze_click_def Let_def)

theorem rejected_click_frame_witness:
  "length (trim (js ''  hi  '')) < 10
   \<and> \<not> analyzeBtn_disabled (analyze_click (js ''  hi  '') (NotOkResponse (Json (Val Absent))) loaded_page)
   \<and> loadingSpinner_hidden (analyze_click (js ''  hi  '') (NotOkResponse (Json (Val Absent))) loaded_page)
   \<and> resultsSection_hidden (analyze_click (js ''  hi  '') (NotOkResponse (Json (Val Absent))) loaded_page)
   \<and> emotionChart (analyze_click (js ''  hi  '') (NotOkResponse (Json (Val Absent))) loaded_page) = None
   \<and> charts (analyze_click (js ''  hi  '') (NotOkResponse (Json (Val Absent))) loaded_page) = []"
  using rejected_click_frame [OF sample_short, of "NotOkResponse (Json (Val Absent))" loaded_page]
    sample_short
  by (simp add: loaded_page_def)

text \<open>
  What holds of every attempt that passes validation: the loading indicator ends hidden
  and the trigger enabled, whatever the outcome. When the request is rejected, the
  response is not ok, or the body of an ok response cannot be parsed, the results area
  ends hidden and no result region has been written.
\<close>

lemma indicator_cleared:
  assumes "\<not> length (trim raw) < 10"
  shows "loadingSpinner_hidden (analyze_click raw outcome s)"
    and "\<not> analyzeBtn_disabled (analyze_click raw outcome s)"
proof -
  define s1 where "s1 = s\<lparr>loadingSpinner_hidden := False, resultsSection_hidden := True,
      analyzeBtn_disabled := True\<rparr>"
  have click: "analyze_click raw outcome s =
      (case try_block (trim raw) outcome s1 of
         Inr s' \<Rightarrow> s'
       | Inl (message, s') \<Rightarrow>
           s'\<lparr>console_errors := console_errors s' @ [message],
              alerts := alerts s' @ [js ''Error: '' @ message],
              loadingSpinner_hidden := True\<rparr>)\<lparr>analyzeBtn_disabled := False\<rparr>"
    using assms by (auto simp add: analyze_click_def Let_def s1_def)
  show "\<not> analyzeBtn_disabled (analyze_click raw outcome s)"
    by (simp add: click)
  have "loadingSpinner_hidden s'" if "try_block (trim raw) outcome s1 = Inr s'" for s'
  proof -
    from that obtain parsed where
      "displayResults_body parsed
         (s1\<lparr>requests := requests s1 @ [Post (js ''/analyze'') (trim raw)],
             loadingSpinner_hidden := True, resultsSection_hidden := False\<rparr>) = Inr s'"
      by (auto simp add: try_block_def Let_def
          split: fetch_outcome.splits json_body.splits jsval.splits)
    then show ?thesis
      using displayResults_body_flags(1) [of parsed
          "s1\<lparr>requests := requests s1 @ [Post (js ''/analyze'') (trim raw)],
              loadingSpinner_hidden := True, resultsSection_hidden := False\<rparr>"]
      by simp
  qed
  then show "loadingSpinner_hidden (analyze_click raw outcome s)"
    by (cases "try_block (trim raw) outcome s1") (auto simp add: click)
qed

lemma enumerated_failures_hidden:
  assumes "\<not> length (trim raw) < 10" "failed outcome"
  shows "resultsSection_hidden (analyze_click raw outcome s)"
    and "analyze_click raw outcome s
           = s\<lparr>loadingSpinner_hidden := True, resultsSection_hidden := True,
                analyzeBtn_disabled := False,
                alerts := alerts (analyze_click raw outcome s),
                console_errors := console_errors (analyze_click raw outcome s),
                requests := requests (analyze_click raw outcome s)\<rparr>"
  using assms
  by (cases outcome rule: failed.cases;
      auto simp add: analyze_click_def try_block_def Let_def split: json_body.splits jsval.splits)+

text \<open>
  C9. The claim fails on the code for a success response whose body lacks \<open>emotions\<close>:
  the handler reveals the results area before it renders, the gauge, the labels and
  the sentiment values are written, \<open>Object.keys\<close> throws, and the \<open>catch\<close> block
  shows the notice without hiding the results area again. The attempt ends with an
  error notice and partial results on screen (the loading indicator is hidden).
\<close>

theorem render_error_leaves_partial_results:
  "alerts (analyze_click (js '' 0123456789 '') (OkResponse (Json (Val no_emotions_body))) loaded_page)
     = [js ''Error: Cannot convert undefined or null to object'']
   \<and> \<not> resultsSection_hidden
         (analyze_click (js '' 0123456789 '') (OkResponse (Json (Val no_emotions_body))) loaded_page)
   \<and> persuasionLabel_text
         (analyze_click (js '' 0123456789 '') (OkResponse (Json (Val no_emotions_body))) loaded_page)
       = js ''High''
   \<and> keywordCount_text
         (analyze_click (js '' 0123456789 '') (OkResponse (Json (Val no_emotions_body))) loaded_page)
       = []
   \<and> loadingSpinner_hidden
         (analyze_click (js '' 0123456789 '') (OkResponse (Json (Val no_emotions_body))) loaded_page)"
  using sample_long sample_nonempty
  by (simp add: analyze_click_def try_block_def displayResults_body_def displaySentiment_body_def
      displayEmotionChart_body_def no_emotions_body_def convert_error_def animateGauge_def
      animateEthicalScore_def animateNumber_def loaded_page_def Let_def js_def)

text \<open>
  C3, as amended. For a response that is not ok (and an input that passed validation)
  whose body parses to a value other than \<open>null\<close>: an \<open>error\<close> field that is a
  non-empty string is shown as \<open>Error: <message>\<close>, and any other truthy value as
  \<open>Error: \<close> followed by its text; when the field is absent or falsy (the empty
  string, \<open>null\<close>, 0, \<open>false\<close>) the notice is \<open>Error: Analysis failed\<close>. The
  trigger ends enabled, and the body \<open>{"error":"bad text"}\<close> gives the notice
  \<open>Error: bad text\<close>.
\<close>

theorem error_notice:
  "\<not> length (trim raw) < 10 \<Longrightarrow>
     (m \<noteq> [] \<longrightarrow>
        alerts (analyze_click raw (NotOkResponse (Json (Val (Text m)))) s)
          = alerts s @ [js ''Error: '' @ m])
     \<and> alerts (analyze_click raw (NotOkResponse (Json (Val (Other True t)))) s)
         = alerts s @ [js ''Error: '' @ t]
     \<and> alerts (analyze_click raw (NotOkResponse (Json (Val Absent))) s)
         = alerts s @ [js ''Error: Analysis failed'']
     \<and> alerts (analyze_click raw (NotOkResponse (Json (Val (Text [])))) s)
         = alerts s @ [js ''Error: Analysis failed'']
     \<and> alerts (analyze_click raw (NotOkResponse (Json (Val (Other False t)))) s)
         = alerts s @ [js ''Error: Analysis failed'']
     \<and> \<not> analyzeBtn_disabled (analyze_click raw (NotOkResponse body) s)
     \<and> alerts (analyze_click raw (NotOkResponse (Json (Val (Text (js ''bad text''))))) s)
         = alerts s @ [js ''Error: bad text'']"
  by (auto simp add: analyze_click_def try_block_def Let_def js_def
      split: json_body.splits jsval.splits)

theorem error_notice_witness:
  "\<not> length (trim (js '' 0123456789 '')) < 10
   \<and> js ''bad text'' \<noteq> []
   \<and> alerts (analyze_click (js '' 0123456789 '') (NotOkResponse (Json (Val (Text (js ''bad text'')))))
        loaded_page) = [js ''Error: bad text'']
   \<and> \<not> analyzeBtn_disabled
         (analyze_click (js '' 0123456789 '') (NotOkResponse (Json (Val (Text (js ''bad text'')))))
            loaded_page)"
  using error_notice [OF sample_long, of "js ''bad text''" loaded_page "[]"
      "Json (Val (Text (js ''bad text'')))"] sample_long
  by (simp add: loaded_page_def js_def)

text \<open>
  The claim as stated fails in two places. For the body \<open>null\<close> the read of
  \<open>error.error\<close> throws, and the notice carries the TypeError's text, not the generic
  message. For the body \<open>{"error":""}\<close> the field is present, and the notice is the
  generic one, not \<open>Error: \<close>.
\<close>

theorem error_payload_counterexample:
  "alerts (analyze_click (js '' 0123456789 '') (NotOkResponse (Json Null)) loaded_page)
     \<noteq> alerts loaded_page @ [js ''Error: Analysis failed'']
   \<and> alerts (analyze_click (js '' 0123456789 '') (NotOkResponse (Json (Val (Text (js ''''))))) loaded_page)
     \<noteq> alerts loaded_page @ [js ''Error: '' @ js '''']"
  using sample_long
  by (simp add: analyze_click_def try_block_def read_error_def Let_def js_def loaded_page_def)

section \<open>Colour tiers\<close>

lemma fire_animateGauge:
  "fire_timeouts (animateGauge score s)
     = gauge_callback (2512 / 10 - score / 100 * (2512 / 10)) score
         (fire_timeouts (animateNumber GaugeScore 0 score 2000 s))"
  by (simp add: animateGauge_def animateNumber_def fire_timeouts_def Let_def)

lemma fire_animateEthicalScore:
  "fire_timeouts (animateEthicalScore score s)
     = ethical_callback (283 - score / 100 * 283) score
         (fire_timeouts (animateNumber EthicalScore 0 score 2000 s))"
  by (simp add: animateEthicalScore_def animateNumber_def fire_timeouts_def Let_def)

lemma colors_distinct:
  "js ''#ef4444'' \<noteq> js ''#f59e0b''" "js ''#f59e0b'' \<noteq> js ''#6366f1''" "js ''#ef4444'' \<noteq> js ''#6366f1''"
  "js ''#10b981'' \<noteq> js ''#f59e0b''" "js ''#10b981'' \<noteq> js ''#ef4444''"
  by (simp_all add: js_def)

text \<open>
  C5. For every score from 0 to 100, once the delayed style update has run, the gauge is
  drawn in \<open>#ef4444\<close> above 80, in \<open>#f59e0b\<close> above 50 and up to 80, and in
  \<open>#6366f1\<close> up to 50; the ethical ring (and its number) is drawn in \<open>#10b981\<close> above
  70, in \<open>#f59e0b\<close> above 40 and up to 70, and in \<open>#ef4444\<close> up to 40.
\<close>

theorem color_tiers:
  "0 \<le> sc \<and> sc \<le> 100 \<Longrightarrow>
     (sc > 80 \<longrightarrow> gaugeProgress_stroke (fire_timeouts (animateGauge sc s)) = js ''#ef4444'')
   \<and> (50 < sc \<and> sc \<le> 80 \<longrightarrow> gaugeProgress_stroke (fire_timeouts (animateGauge sc s)) = js ''#f59e0b'')
   \<and> (sc \<le> 50 \<longrightarrow> gaugeProgress_stroke (fire_timeouts (animateGauge sc s)) = js ''#6366f1'')
   \<and> (sc > 70 \<longrightarrow> ethicalCircle_stroke (fire_timeouts (animateEthicalScore sc s)) = js ''#10b981''
                  \<and> ethicalScore_fill (fire_timeouts (animateEthicalScore sc s)) = js ''#10b981'')
   \<and> (40 < sc \<and> sc \<le> 70 \<longrightarrow> ethicalCircle_stroke (fire_timeouts (animateEthicalScore sc s)) = js ''#f59e0b''
                  \<and> ethicalScore_fill (fire_timeouts (animateEthicalScore sc s)) = js ''#f59e0b'')
   \<and> (sc \<le> 40 \<longrightarrow> ethicalCircle_stroke (fire_timeouts (animateEthicalScore sc s)) = js ''#ef4444''
                  \<and> ethicalScore_fill (fire_timeouts (animateEthicalScore sc s)) = js ''#ef4444'')"
  by (simp add: fire_animateGauge fire_animateEthicalScore gauge_callback_def ethical_callback_def Let_def)

theorem color_tiers_witness:
  "gaugeProgress_stroke (fire_timeouts (animateGauge 90 loaded_page)) = js ''#ef4444''
   \<and> gaugeProgress_stroke (fire_timeouts (animateGauge 80 loaded_page)) = js ''#f59e0b''
   \<and> gaugeProgress_stroke (fire_timeouts (animateGauge 50 loaded_page)) = js ''#6366f1''
   \<and> ethicalCircle_stroke (fire_timeouts (animateEthicalScore 90 loaded_page)) = js ''#10b981''
   \<and> ethicalScore_fill (fire_timeouts (animateEthicalScore 70 loaded_page)) = js ''#f59e0b''
   \<and> ethicalScore_fill (fire_timeouts (animateEthicalScore 40 loaded_page)) = js ''#ef4444''"
  using color_tiers [of 90 loaded_page] color_tiers [of 80 loaded_page] color_tiers [of 50 loaded_page]
    color_tiers [of 70 loaded_page] color_tiers [of 40 loaded_page]
  by simp

section \<open>Keyword panel\<close>

lemma category_loop_eq:
  "category_loop entries children
     = children @ map (\<lambda>(category, n). CategoryItem (replace_first 0x5F 0x20 category) (Number_toString n))
                      (filter (\<lambda>(category, n). n > 0) entries)"
  by (induction entries children rule: category_loop.induct) simp_all

lemma words_loop_eq: "words_loop ws children = children @ map KeywordTag ws"
  by (induction ws arbitrary: children) simp_all

text \<open>
  C8. For every keywords object the panel shows the total count, one row per category
  whose count is positive (in the order of the entries, and no other row), and one tag
  per found word, or the placeholder when no word was found. For
  \<open>{count:0, by_category:{}, words_found:[]}\<close> it shows \<open>0\<close>, no row and the placeholder.
\<close>

theorem keyword_panel:
  "keywordCount_text (displayKeywords k s) = Number_toString (count k)
   \<and> keywordCategories_children (displayKeywords k s)
       = map (\<lambda>(category, n). CategoryItem (replace_first 0x5F 0x20 category) (Number_toString n))
           (filter (\<lambda>(category, n). n > 0) (by_category k))
   \<and> keywordsList_children (displayKeywords k s)
       = (if words_found k = [] then [none_found] else map KeywordTag (words_found k))
   \<and> keywordCount_text (displayKeywords \<lparr>count = 0, by_category = [], words_found = []\<rparr> s) = js ''0''
   \<and> keywordCategories_children (displayKeywords \<lparr>count = 0, by_category = [], words_found = []\<rparr> s) = []
   \<and> keywordsList_children (displayKeywords \<lparr>count = 0, by_category = [], words_found = []\<rparr> s)
       = [none_found]"
  by (simp add: displayKeywords_def Let_def category_loop_eq words_loop_eq Number_toString_def
      digits.simps js_def)

section \<open>Sentiment bars\<close>

lemma digit_unit_value:
  assumes "n < 10"
  shows "unat (of_nat (48 + n) - 0x30 :: 16 word) = n"
proof -
  have "(of_nat (48 + n) - 0x30 :: 16 word) = of_nat n"
    by simp
  moreover have "unat (of_nat n :: 16 word) = n"
    using assms by (simp add: unat_of_nat)
  ultimately show ?thesis by simp
qed

lemma digit_unit_is_digit:
  assumes "n < 10"
  shows "is_digit (of_nat (48 + n))"
proof -
  have "unat (of_nat (48 + n) :: 16 word) = 48 + n"
    using assms by (simp add: unat_of_nat del: of_nat_add)
  then show ?thesis
    using assms by (simp add: is_digit_def word_le_nat_alt del: of_nat_add)
qed

lemma decimal_value_snoc:
  "decimal_value (ds @ [c]) = 10 * decimal_value ds + unat (c - 0x30)"
  by (simp add: decimal_value_def)

lemma decimal_value_digits: "decimal_value (digits n) = n"
proof (induction n rule: digits.induct)
  case (1 n)
  show ?case
  proof (cases "n < 10")
    case True
    then show ?thesis
      using digit_unit_value [of n] by (simp add: digits.simps [of n] decimal_value_def del: of_nat_add)
  next
    case False
    then have "decimal_value (digits n) = 10 * decimal_value (digits (n div 10)) + n mod 10"
      using digit_unit_value [of "n mod 10"]
      by (simp add: digits.simps [of n] decimal_value_snoc del: of_nat_add)
    with False 1 show ?thesis by simp
  qed
qed

lemma digits_all_digit: "list_all is_digit (digits n)"
proof (induction n rule: digits.induct)
  case (1 n)
  show ?case
  proof (cases "n < 10")
    case True
    then show ?thesis
      using digit_unit_is_digit [of n] by (simp add: digits.simps [of n] del: of_nat_add)
  next
    case False
    with 1 show ?thesis
      using digit_unit_is_digit [of "n mod 10"] by (simp add: digits.simps [of n] del: of_nat_add)
  qed
qed

lemma digits_nonempty: "digits n \<noteq> []"
  by (subst digits.simps) simp

lemma decimal_value_zeros: "decimal_value (replicate k 0x30 @ ds) = decimal_value ds"
proof -
  have "foldl (\<lambda>acc c. 10 * acc + unat (c - 0x30)) 0 (replicate k (0x30 :: 16 word)) = 0"
  proof (induction k)
    case 0
    show ?case by simp
  next
    case (Suc k)
    have "replicate (Suc k) (0x30 :: 16 word) = replicate k 0x30 @ [0x30]"
      by (simp add: replicate_append_same)
    with Suc show ?case by (simp only: foldl_append) simp
  qed
  then show ?thesis by (simp add: decimal_value_def)
qed

lemma toFixed_n_near:
  "\<bar>of_nat (toFixed_n f x) / 10 ^ f - \<bar>x\<bar>\<bar> \<le> 1 / (2 * 10 ^ f)"
proof -
  define P :: rat where "P = 10 ^ f"
  define y where "y = \<bar>x\<bar> * P"
  have P: "0 < P" by (simp add: P_def)
  have y0: "0 \<le> y" using P by (simp add: y_def)
  then have "0 \<le> \<lfloor>y + 1 / 2\<rfloor>" by simp
  then have n: "(of_nat (toFixed_n f x) :: rat) = of_int \<lfloor>y + 1 / 2\<rfloor>"
    by (simp add: toFixed_n_def y_def P_def)
  have "of_int \<lfloor>y + 1 / 2\<rfloor> \<le> y + 1 / 2" "y + 1 / 2 < of_int \<lfloor>y + 1 / 2\<rfloor> + 1"
    by linarith+
  then have half: "\<bar>of_nat (toFixed_n f x) - y\<bar> \<le> 1 / 2"
    unfolding n by linarith
  have "of_nat (toFixed_n f x) / P - \<bar>x\<bar> = (of_nat (toFixed_n f x) - y) / P"
    using P by (simp add: y_def diff_divide_distrib)
  then have "\<bar>of_nat (toFixed_n f x) / P - \<bar>x\<bar>\<bar> = \<bar>of_nat (toFixed_n f x) - y\<bar> / P"
    using P by (simp add: abs_divide del: of_nat_diff)
  also have "\<dots> \<le> (1 / 2) / P"
    using half P by (simp only: divide_right_mono less_imp_le)
  finally show ?thesis
    by (simp add: P_def)
qed

text \<open>The padded digit string that toFixed splits at the point.\<close>

lemma toFixed_shape:
  assumes "f \<noteq> 0"
  shows "\<exists>a b. toFixed f x = (if x < 0 then js ''-'' else []) @ a @ js ''.'' @ b
           \<and> a \<noteq> [] \<and> length b = f \<and> list_all is_digit a \<and> list_all is_digit b
           \<and> decimal_value (a @ b) = toFixed_n f x"
proof -
  define m where "m = digits (toFixed_n f x)"
  define z where "z = (if length m \<le> f then replicate (f + 1 - length m) 0x30 @ m else m)"
  have zlen: "f < length z"
    by (auto simp add: z_def)
  have zdig: "list_all is_digit z"
    using digits_all_digit [of "toFixed_n f x"]
    by (simp add: z_def m_def is_digit_def list_all_iff)
  have zval: "decimal_value z = toFixed_n f x"
    by (simp add: z_def m_def decimal_value_zeros decimal_value_digits)
  let ?a = "take (length z - f) z" and ?b = "drop (length z - f) z"
  have "toFixed f x = (if x < 0 then js ''-'' else []) @ ?a @ js ''.'' @ ?b"
    using assms by (simp add: toFixed_def Let_def m_def z_def)
  moreover have "?a \<noteq> []"
  proof -
    have "0 < length ?a" using zlen by simp
    then show ?thesis by fastforce
  qed
  moreover have "length ?b = f" using zlen by simp
  moreover have "list_all is_digit ?a" "list_all is_digit ?b"
    using zdig by (auto simp add: list_all_iff dest: in_set_takeD in_set_dropD)
  moreover have "decimal_value (?a @ ?b) = toFixed_n f x"
    using zval by simp
  ultimately show ?thesis by blast
qed

lemma read_fixed_toFixed:
  assumes "f \<noteq> 0"
  shows "read_fixed (toFixed f x)
           = Some ((if x < 0 then - 1 else 1) * of_nat (toFixed_n f x) / 10 ^ f, f)"
proof -
  obtain a b where ab: "toFixed f x = (if x < 0 then js ''-'' else []) @ a @ js ''.'' @ b"
    "a \<noteq> []" "length b = f" "list_all is_digit a" "list_all is_digit b"
    "decimal_value (a @ b) = toFixed_n f x"
    using toFixed_shape [OF assms, of x] by blast
  have nd: "\<not> is_digit 0x2E" "\<not> is_digit 0x2D"
    by (simp_all add: is_digit_def)
  have tw: "takeWhile is_digit (a @ 0x2E # b) = a" "dropWhile is_digit (a @ 0x2E # b) = 0x2E # b"
    using ab(4) nd by (simp_all add: list_all_iff takeWhile_append2 dropWhile_append2)
  obtain c cs where a: "a = c # cs" using ab(2) by (cases a) auto
  have c: "c \<noteq> 0x2D" using ab(4) nd a by auto
  have bne: "b \<noteq> []" using ab(3) assms by auto
  have neg: "read_fixed (0x2D # (a @ 0x2E # b))
               = Some (- 1 * of_nat (decimal_value (a @ b)) / 10 ^ length b, length b)"
    using tw ab(2) ab(5) bne by (simp add: read_fixed_def)
  have pos: "read_fixed (c # (cs @ 0x2E # b))
               = Some (1 * of_nat (decimal_value (a @ b)) / 10 ^ length b, length b)"
    using tw ab(5) bne c unfolding a by (simp add: read_fixed_def)
  show ?thesis
  proof (cases "x < 0")
    case True
    then have "toFixed f x = 0x2D # (a @ 0x2E # b)" by (simp add: ab(1) js_def)
    then show ?thesis
      using True neg ab(3) ab(6) by simp
  next
    case False
    then have "toFixed f x = c # (cs @ 0x2E # b)" by (simp add: ab(1) js_def a)
    then show ?thesis
      using False pos ab(3) ab(6) by simp
  qed
qed

lemma toFixed_rounds:
  assumes "f \<noteq> 0"
  shows "\<exists>v. read_fixed (toFixed f x) = Some (v, f) \<and> \<bar>v - x\<bar> \<le> 1 / (2 * 10 ^ f)"
proof -
  have "\<bar>(if x < 0 then - 1 else 1) * of_nat (toFixed_n f x) / 10 ^ f - x\<bar>
          = \<bar>of_nat (toFixed_n f x) / 10 ^ f - \<bar>x\<bar>\<bar>"
    by (cases "x < 0") (simp_all add: abs_minus_commute [symmetric] abs_if)
  then show ?thesis
    using toFixed_n_near [of f x] read_fixed_toFixed [OF assms, of x] by simp
qed
lemma toFixed_samples:
  "toFixed 3 (- 1) = js ''-1.000''" "toFixed 3 0 = js ''0.000''" "toFixed 3 (1 / 3) = js ''0.333''"
  "toFixed 3 (- 2 / 3) = js ''-0.667''" "toFixed 1 (1234 / 100) = js ''12.3''"
  by code_simp+

lemma fire_displaySentiment:
  "fire_timeouts (displaySentiment sent s)
     = sentiment_callback (Fin ((polarity sent + 1) / 2 * 100)) (Fin (subjectivity sent * 100))
         (fire_timeouts (s\<lparr>polarityValue_text := toFixed 3 (polarity sent),
                          subjectivityValue_text := toFixed 3 (subjectivity sent)\<rparr>))"
  by (simp add: displaySentiment_def fire_timeouts_def Let_def)

text \<open>
  C6. Once the delayed style update has run, the polarity bar is \<open>(p + 1) / 2 * 100\<close>
  per cent wide (0 at \<open>p = -1\<close>, 50 at \<open>p = 0\<close>, 100 at \<open>p = 1\<close>, and between 0 and
  100 for \<open>p\<close> in \<open>[-1, 1]\<close>) and the subjectivity bar \<open>q * 100\<close> per cent. Both value
  texts read as decimal numbers with exactly three digits after the point, at most
  0.0005 away from the raw value. (Numbers are exact rationals here.)
\<close>

theorem sentiment_display:
  "polarityBar_width (fire_timeouts (displaySentiment sent s)) = (polarity sent + 1) / 2 * 100
   \<and> subjectivityBar_width (fire_timeouts (displaySentiment sent s)) = subjectivity sent * 100
   \<and> (polarity sent = - 1 \<longrightarrow> polarityBar_width (fire_timeouts (displaySentiment sent s)) = 0)
   \<and> (polarity sent = 0 \<longrightarrow> polarityBar_width (fire_timeouts (displaySentiment sent s)) = 50)
   \<and> (polarity sent = 1 \<longrightarrow> polarityBar_width (fire_timeouts (displaySentiment sent s)) = 100)
   \<and> (- 1 \<le> polarity sent \<and> polarity sent \<le> 1 \<longrightarrow>
        0 \<le> polarityBar_width (fire_timeouts (displaySentiment sent s))
        \<and> polarityBar_width (fire_timeouts (displaySentiment sent s)) \<le> 100)
   \<and> (0 \<le> subjectivity sent \<and> subjectivity sent \<le> 1 \<longrightarrow>
        0 \<le> subjectivityBar_width (fire_timeouts (displaySentiment sent s))
        \<and> subjectivityBar_width (fire_timeouts (displaySentiment sent s)) \<le> 100)
   \<and> (\<exists>v. read_fixed (polarityValue_text (displaySentiment sent s)) = Some (v, 3)
          \<and> \<bar>v - polarity sent\<bar> \<le> 1 / 2000)
   \<and> (\<exists>v. read_fixed (subjectivityValue_text (displaySentiment sent s)) = Some (v, 3)
          \<and> \<bar>v - subjectivity sent\<bar> \<le> 1 / 2000)"
proof -
  have w: "polarityBar_width (fire_timeouts (displaySentiment sent s)) = (polarity sent + 1) / 2 * 100"
    "subjectivityBar_width (fire_timeouts (displaySentiment sent s)) = subjectivity sent * 100"
    by (simp_all add: fire_displaySentiment sentiment_callback_def)
  have t: "polarityValue_text (displaySentiment sent s) = toFixed 3 (polarity sent)"
    "subjectivityValue_text (displaySentiment sent s) = toFixed 3 (subjectivity sent)"
    by (simp_all add: displaySentiment_def Let_def)
  have r: "\<exists>v. read_fixed (toFixed 3 (polarity sent)) = Some (v, 3) \<and> \<bar>v - polarity sent\<bar> \<le> 1 / 2000"
    "\<exists>v. read_fixed (toFixed 3 (subjectivity sent)) = Some (v, 3) \<and> \<bar>v - subjectivity sent\<bar> \<le> 1 / 2000"
    using toFixed_rounds [of 3 "polarity sent"] toFixed_rounds [of 3 "subjectivity sent"]
    by simp_all
  show ?thesis
    unfolding w t using r by simp
qed

theorem sentiment_display_witness:
  "polarityBar_width (fire_timeouts (displaySentiment \<lparr>polarity = - 1, subjectivity = 0\<rparr> loaded_page)) = 0
   \<and> polarityBar_width (fire_timeouts (displaySentiment \<lparr>polarity = 0, subjectivity = 1 / 2\<rparr> loaded_page)) = 50
   \<and> subjectivityBar_width (fire_timeouts (displaySentiment \<lparr>polarity = 0, subjectivity = 1 / 2\<rparr> loaded_page)) = 50
   \<and> polarityBar_width (fire_timeouts (displaySentiment \<lparr>polarity = 1, subjectivity = 1\<rparr> loaded_page)) = 100
   \<and> subjectivityBar_width (fire_timeouts (displaySentiment \<lparr>polarity = 1, subjectivity = 1\<rparr> loaded_page)) = 100"
  using sentiment_display [of "\<lparr>polarity = - 1, subjectivity = 0\<rparr>" loaded_page]
    sentiment_display [of "\<lparr>polarity = 0, subjectivity = 1 / 2\<rparr>" loaded_page]
    sentiment_display [of "\<lparr>polarity = 1, subjectivity = 1\<rparr>" loaded_page]
  by simp

section \<open>Emotion chart\<close>

text \<open>
  The chart is built with one label and one value per key, in key order; the label is
  the capitalized key, and the tooltip shows the value with one digit after the point.
\<close>

lemma emotion_chart_config:
  "last (charts (displayEmotionChart emos s))
     = (chart_counter s,
        \<lparr>chart_type = js ''doughnut'', labels = map capitalize (map fst emos), data = map snd emos,
         backgroundColor = [js ''#10b981'', js ''#ef4444'', js ''#dc2626'', js ''#3b82f6'']\<rparr>)
   \<and> emotionChart (displayEmotionChart emos s) = Some (chart_counter s)"
  by (simp add: displayEmotionChart_def Chart_new_def Chart_destroy_def Let_def split: option.splits)

lemma tooltip_sample: "tooltip_label (js ''Joy'') (1234 / 100) = js ''Joy: 12.3%''"
  by code_simp

text \<open>
  C7. The colours are taken from a fixed array by the position of the key, not by the
  category: with the keys in the order joy, fear the segment Fear is \<open>#ef4444\<close>, and
  with the order fear, joy it is \<open>#10b981\<close>, the colour the script's comment gives to
  Joy. So the same category does not always get the same colour.
\<close>

theorem emotion_color_by_position:
  "map_option segments (current_chart (displayEmotionChart [(js ''joy'', 60), (js ''fear'', 40)] loaded_page))
     = Some [(js ''Joy'', 60, Some (js ''#10b981'')), (js ''Fear'', 40, Some (js ''#ef4444''))]
   \<and> map_option segments (current_chart (displayEmotionChart [(js ''fear'', 40), (js ''joy'', 60)] loaded_page))
     = Some [(js ''Fear'', 40, Some (js ''#10b981'')), (js ''Joy'', 60, Some (js ''#ef4444''))]"
  by (simp add: displayEmotionChart_def Chart_new_def current_chart_def loaded_page_def segments_def
      segment_color_def toUpperCase_unit_def js_def Let_def upt_rec)

section \<open>The numeric tween\<close>

lemma ticks_reach_up:
  assumes "tw_increment t = Fin i" "0 < i" "tw_current t = Fin c" "0 < n"
    and "tw_end t \<le> c + of_nat n * i"
  shows "snd (ticks n t)"
  using assms
proof (induction n arbitrary: t c)
  case 0
  then show ?case by simp
next
  case (Suc n)
  show ?case
  proof (cases "tw_end t \<le> c + i")
    case True
    then have "snd (tick t)"
      using Suc.prems by (simp add: tick_def)
    then show ?thesis by (simp add: split_beta)
  next
    case False
    then have step: "tick t = (t\<lparr>tw_current := Fin (c + i)\<rparr>, False)"
      using Suc.prems by (simp add: tick_def)
    have "n \<noteq> 0"
      using False Suc.prems(5) by (cases n) auto
    moreover have "tw_end t \<le> (c + i) + of_nat n * i"
      using Suc.prems(5) by (simp add: algebra_simps)
    ultimately have "snd (ticks n (t\<lparr>tw_current := Fin (c + i)\<rparr>))"
      using Suc.IH [of "t\<lparr>tw_current := Fin (c + i)\<rparr>" "c + i"] Suc.prems(1,2) by simp
    then show ?thesis by (simp add: step)
  qed
qed

lemma ticks_reach_down:
  assumes "tw_increment t = Fin i" "i < 0" "tw_current t = Fin c" "0 < n"
    and "c + of_nat n * i \<le> tw_end t"
  shows "snd (ticks n t)"
  using assms
proof (induction n arbitrary: t c)
  case 0
  then show ?case by simp
next
  case (Suc n)
  show ?case
  proof (cases "c + i \<le> tw_end t")
    case True
    then have "snd (tick t)"
      using Suc.prems by (simp add: tick_def)
    then show ?thesis by (simp add: split_beta)
  next
    case False
    then have step: "tick t = (t\<lparr>tw_current := Fin (c + i)\<rparr>, False)"
      using Suc.prems by (simp add: tick_def)
    have "n \<noteq> 0"
      using False Suc.prems(5) by (cases n) auto
    moreover have "(c + i) + of_nat n * i \<le> tw_end t"
      using Suc.prems(5) by (simp add: algebra_simps)
    ultimately have "snd (ticks n (t\<lparr>tw_current := Fin (c + i)\<rparr>))"
      using Suc.IH [of "t\<lparr>tw_current := Fin (c + i)\<rparr>" "c + i"] Suc.prems(1,2) by simp
    then show ?thesis by (simp add: step)
  qed
qed

text \<open>With a positive duration and a target different from the start the timer is cleared.\<close>

lemma tween_stops:
  assumes "start \<noteq> end'" "0 < duration"
  shows "\<exists>n. snd (ticks n \<lparr>tw_element = el, tw_current = Fin start,
                 tw_increment = divide_number (end' - start) (duration / 16), tw_end = end'\<rparr>)"
proof -
  define k where "k = duration / 16"
  define i where "i = (end' - start) / k"
  define n where "n = nat \<lceil>k\<rceil>"
  let ?t = "\<lparr>tw_element = el, tw_current = Fin start, tw_increment = Fin i, tw_end = end'\<rparr>"
  have k: "0 < k" using assms(2) by (simp add: k_def)
  then have n: "0 < n" "k \<le> of_nat n"
    by (simp_all add: n_def of_nat_ceiling)
  have inc: "divide_number (end' - start) (duration / 16) = Fin i"
    using k by (simp add: divide_number_def i_def k_def)
  have ki: "k * i = end' - start"
    using k by (simp add: i_def)
  have "snd (ticks n ?t)"
  proof (cases "start < end'")
    case True
    then have i: "0 < i" using k by (simp add: i_def)
    have "k * i \<le> of_nat n * i"
      using n(2) i by (simp add: mult_right_mono)
    then have "end' \<le> start + of_nat n * i" using ki by simp
    then show ?thesis
      using ticks_reach_up [of ?t i start n] i n(1) by simp
  next
    case False
    then have lt: "end' < start" using assms(1) by simp
    then have i: "i < 0" using k by (simp add: i_def divide_neg_pos)
    have "of_nat n * i \<le> k * i"
      using n(2) i by (simp add: mult_right_mono_neg)
    then have "start + of_nat n * i \<le> end'" using ki by simp
    then show ?thesis
      using ticks_reach_down [of ?t i start n] i n(1) by simp
  qed
  then show ?thesis unfolding inc by blast
qed

lemma tick_stalled: "tick stalled = (stalled, False)"
  by (simp add: tick_def stalled_def)

lemma stalled_round:
  assumes "intervals s = [stalled]"
  shows "intervals (tick_intervals s) = [stalled] \<and> gaugeScore_text (tick_intervals s) = js ''0''"
  using assms
  by (simp add: tick_intervals_def tick_stalled)
    (simp add: stalled_def Math_round_def Number_toString_def digits.simps js_def)

lemma stalled_rounds:
  assumes "intervals s = [stalled]"
  shows "intervals ((tick_intervals ^^ n) s) = [stalled]"
  using assms by (induction n) (simp_all add: stalled_round)

text \<open>
  C2. For a score of 0 the tween starts with an increment of 0, neither comparison of
  the tick holds, and the timer is never cleared: after any number of rounds of ticks
  the interval is still running (and keeps writing \<open>0\<close>).
\<close>

theorem zero_score_tween_never_cleared:
  "intervals ((tick_intervals ^^ n) (animateGauge 0 loaded_page)) \<noteq> []
   \<and> gaugeScore_text ((tick_intervals ^^ Suc n) (animateGauge 0 loaded_page)) = js ''0''"
proof -
  have "intervals (animateGauge 0 loaded_page) = [stalled]"
    by (simp add: animateGauge_def animateNumber_def loaded_page_def divide_number_def stalled_def Let_def)
  then have "intervals ((tick_intervals ^^ n) (animateGauge 0 loaded_page)) = [stalled]"
    by (rule stalled_rounds)
  then show ?thesis
    using stalled_round [of "(tick_intervals ^^ n) (animateGauge 0 loaded_page)"] by simp
qed

section \<open>Rendering the same result twice\<close>


lemma visible_eq_iff:
  "visible a = visible b \<longleftrightarrow>
     loadingSpinner_hidden a = loadingSpinner_hidden b
   \<and> resultsSection_hidden a = resultsSection_hidden b
   \<and> analyzeBtn_disabled a = analyzeBtn_disabled b
   \<and> persuasionLabel_text a = persuasionLabel_text b
   \<and> ethicalReflection_text a = ethicalReflection_text b
   \<and> highlightedText_html a = highlightedText_html b
   \<and> gaugeProgress_strokeDashoffset a = gaugeProgress_strokeDashoffset b
   \<and> gaugeProgress_stroke a = gaugeProgress_stroke b
   \<and> gaugeScore_text a = gaugeScore_text b
   \<and> ethicalCircle_strokeDashoffset a = ethicalCircle_strokeDashoffset b
   \<and> ethicalCircle_stroke a = ethicalCircle_stroke b
   \<and> ethicalScore_fill a = ethicalScore_fill b
   \<and> ethicalScore_text a = ethicalScore_text b
   \<and> polarityBar_width a = polarityBar_width b
   \<and> subjectivityBar_width a = subjectivityBar_width b
   \<and> polarityValue_text a = polarityValue_text b
   \<and> subjectivityValue_text a = subjectivityValue_text b
   \<and> keywordCount_text a = keywordCount_text b
   \<and> keywordCategories_children a = keywordCategories_children b
   \<and> keywordsList_children a = keywordsList_children b
   \<and> alerts a = alerts b
   \<and> console_errors a = console_errors b
   \<and> requests a = requests b
   \<and> map snd (charts a) = map snd (charts b)"
  by (cases a, cases b) (auto simp add: visible_def)

lemma chart_inv_charts:
  assumes "chart_inv s"
  shows "charts (displayEmotionChart emos s)
           = [(chart_counter s,
               \<lparr>chart_type = js ''doughnut'', labels = map capitalize (map fst emos), data = map snd emos,
                backgroundColor = [js ''#10b981'', js ''#ef4444'', js ''#dc2626'', js ''#3b82f6'']\<rparr>)]"
proof (cases "emotionChart s")
  case None
  with assms have "charts s = []"
    by (cases "charts s") (auto simp add: chart_inv_def)
  with None show ?thesis
    by (simp add: displayEmotionChart_def Chart_new_def Let_def)
next
  case (Some i)
  with assms have "filter (\<lambda>(j, c). j \<noteq> i) (charts s) = []"
    by (auto simp add: chart_inv_def list_all_iff filter_empty_conv)
  with Some show ?thesis
    by (simp add: displayEmotionChart_def Chart_new_def Chart_destroy_def Let_def)
qed

lemma chart_inv_displayEmotionChart:
  assumes "chart_inv s"
  shows "chart_inv (displayEmotionChart emos s)"
proof -
  have "emotionChart (displayEmotionChart emos s) = Some (chart_counter s)"
    "chart_counter (displayEmotionChart emos s) = Suc (chart_counter s)"
    by (simp_all add: displayEmotionChart_def Chart_new_def Chart_destroy_def Let_def split: option.splits)
  then show ?thesis
    using chart_inv_charts [OF assms, of emos] by (simp add: chart_inv_def)
qed


lemmas render_defs = displayResults_def displayKeywords_def displayEmotionChart_def Chart_new_def
  Chart_destroy_def displaySentiment_def animateEthicalScore_def animateGauge_def animateNumber_def

lemma displayResults_timers:
  "timeouts (displayResults d s) = timeouts s @ pending d"
  "intervals (displayResults d s) = intervals s @ started d"
  by (simp_all add: render_defs pending_def started_def Let_def split: option.splits)

lemma displayResults_written:
  "persuasionLabel_text (displayResults d s) = persuasion_label d"
  "ethicalReflection_text (displayResults d s) = ethical_reflection d"
  "highlightedText_html (displayResults d s) = highlighted_text d"
  "polarityValue_text (displayResults d s) = toFixed 3 (polarity (sentiment d))"
  "subjectivityValue_text (displayResults d s) = toFixed 3 (subjectivity (sentiment d))"
  "keywordCount_text (displayResults d s) = keywordCount_text (displayKeywords (persuasive_keywords d) s)"
  "keywordCategories_children (displayResults d s)
     = keywordCategories_children (displayKeywords (persuasive_keywords d) s)"
  "keywordsList_children (displayResults d s)
     = keywordsList_children (displayKeywords (persuasive_keywords d) s)"
  by (simp_all add: render_defs Let_def split: option.splits)

lemma displayKeywords_indep:
  "keywordCount_text (displayKeywords k s) = keywordCount_text (displayKeywords k s')"
  "keywordCategories_children (displayKeywords k s) = keywordCategories_children (displayKeywords k s')"
  "keywordsList_children (displayKeywords k s) = keywordsList_children (displayKeywords k s')"
  by (simp_all add: displayKeywords_def Let_def)

lemma displayResults_kept:
  "loadingSpinner_hidden (displayResults d s) = loadingSpinner_hidden s"
  "resultsSection_hidden (displayResults d s) = resultsSection_hidden s"
  "analyzeBtn_disabled (displayResults d s) = analyzeBtn_disabled s"
  "gaugeProgress_strokeDashoffset (displayResults d s) = gaugeProgress_strokeDashoffset s"
  "gaugeProgress_stroke (displayResults d s) = gaugeProgress_stroke s"
  "gaugeScore_text (displayResults d s) = gaugeScore_text s"
  "ethicalCircle_strokeDashoffset (displayResults d s) = ethicalCircle_strokeDashoffset s"
  "ethicalCircle_stroke (displayResults d s) = ethicalCircle_stroke s"
  "ethicalScore_fill (displayResults d s) = ethicalScore_fill s"
  "ethicalScore_text (displayResults d s) = ethicalScore_text s"
  "polarityBar_width (displayResults d s) = polarityBar_width s"
  "subjectivityBar_width (displayResults d s) = subjectivityBar_width s"
  "alerts (displayResults d s) = alerts s"
  "console_errors (displayResults d s) = console_errors s"
  "requests (displayResults d s) = requests s"
  by (simp_all add: render_defs Let_def split: option.splits)

lemma displayResults_chart_fields:
  "charts (displayResults d s) = charts (displayEmotionChart (emotions d) s)"
  "emotionChart (displayResults d s) = emotionChart (displayEmotionChart (emotions d) s)"
  "chart_counter (displayResults d s) = chart_counter (displayEmotionChart (emotions d) s)"
  by (simp_all add: render_defs Let_def split: option.splits)

lemma chart_inv_displayResults:
  assumes "chart_inv s"
  shows "chart_inv (displayResults d s)"
  using chart_inv_displayEmotionChart [OF assms, of "emotions d"]
  by (simp add: chart_inv_def displayResults_chart_fields)

lemma charts_displayResults:
  assumes "chart_inv s"
  shows "charts (displayResults d s) = [(chart_counter s, emotion_config (emotions d))]"
  using chart_inv_charts [OF assms, of "emotions d"]
  by (simp add: displayResults_chart_fields emotion_config_def)

lemma visible_render_twice:
  assumes "chart_inv s"
  shows "visible (displayResults d (displayResults d s)) = visible (displayResults d s)"
proof -
  have "map snd (charts (displayResults d (displayResults d s))) = map snd (charts (displayResults d s))"
    using charts_displayResults [OF assms, of d]
      charts_displayResults [OF chart_inv_displayResults [OF assms], of d d]
    by simp
  then show ?thesis
    unfolding visible_eq_iff displayResults_written displayResults_kept
    using displayKeywords_indep [of "persuasive_keywords d" "displayResults d s" s]
    by simp
qed

lemma tick_element: "tw_element (fst (tick t)) = tw_element t"
  by (simp add: tick_def Let_def)

lemma tick_all_eq: "tick_all ts s = (advance ts, writes ts s)"
  by (induction ts arbitrary: s) (simp_all add: split_beta Let_def tick_element shown_def)

lemma tick_intervals_eq:
  "tick_intervals s = (writes (intervals s) s)\<lparr>intervals := advance (intervals s)\<rparr>"
  by (simp add: tick_intervals_def tick_all_eq)

lemma advance_append: "advance (xs @ ys) = advance xs @ advance ys"
  by (induction xs) simp_all

lemma writes_append: "writes (xs @ ys) s = writes ys (writes xs s)"
  by (induction xs arbitrary: s) simp_all

lemma writes_eq:
  "writes ts s = s\<lparr>gaugeScore_text := last_write GaugeScore ts (gaugeScore_text s),
                    ethicalScore_text := last_write EthicalScore ts (ethicalScore_text s)\<rparr>"
proof (induction ts arbitrary: s)
  case Nil
  show ?case by simp
next
  case (Cons t ts)
  show ?case
    by (cases "tw_element t") (simp_all add: Cons.IH)
qed

lemma last_write_snoc:
  "last_write el (ts @ [t]) v = (if tw_element t = el then shown t else last_write el ts v)"
  by (induction ts arbitrary: v) simp_all

lemma last_write_idem: "last_write el ts (last_write el ts v) = last_write el ts v"
  by (induction ts rule: rev_induct) (simp_all add: last_write_snoc)

lemma writes_idem: "writes ts (writes ts s) = writes ts s"
  by (simp add: writes_eq [of ts] last_write_idem)

lemma writes_visible:
  assumes "visible a = visible b"
  shows "visible (writes ts a) = visible (writes ts b)"
  using assms by (simp add: visible_eq_iff writes_eq [of ts])

lemma callback_updates:
  "gauge_callback offset score s
     = s\<lparr>gaugeProgress_strokeDashoffset := offset,
          gaugeProgress_stroke := (if score > 80 then js ''#ef4444''
                                   else if score > 50 then js ''#f59e0b'' else js ''#6366f1'')\<rparr>"
  "ethical_callback offset score s
     = s\<lparr>ethicalCircle_strokeDashoffset := offset,
          ethicalCircle_stroke := (if score > 70 then js ''#10b981''
                                   else if score > 40 then js ''#f59e0b'' else js ''#ef4444''),
          ethicalScore_fill := (if score > 70 then js ''#10b981''
                                else if score > 40 then js ''#f59e0b'' else js ''#ef4444'')\<rparr>"
  by (simp_all add: gauge_callback_def ethical_callback_def Let_def)

lemma sentiment_callback_updates:
  "sentiment_callback pp sp s
     = s\<lparr>polarityBar_width := (case pp of Fin w \<Rightarrow> w | _ \<Rightarrow> polarityBar_width s),
          subjectivityBar_width := (case sp of Fin w \<Rightarrow> w | _ \<Rightarrow> subjectivityBar_width s)\<rparr>"
  by (cases pp; cases sp; simp add: sentiment_callback_def)

lemma run_callback_eq:
  "timeouts (run_callback cb s) = timeouts s" "intervals (run_callback cb s) = intervals s"
  by (cases cb, simp_all add: callback_updates sentiment_callback_updates)+

lemma run_callback_visible:
  assumes "visible a = visible b"
  shows "visible (run_callback cb a) = visible (run_callback cb b)"
  using assms
  by (cases cb) (auto simp add: visible_eq_iff callback_updates sentiment_callback_updates
      split: number.splits)

lemma fold_callbacks_visible:
  assumes "visible a = visible b"
  shows "visible (fold run_callback cbs a) = visible (fold run_callback cbs b)"
  using assms
proof (induction cbs arbitrary: a b)
  case Nil
  then show ?case by simp
next
  case (Cons cb cbs)
  from Cons.prems have "visible (run_callback cb a) = visible (run_callback cb b)"
    by (rule run_callback_visible)
  then have "visible (fold run_callback cbs (run_callback cb a))
               = visible (fold run_callback cbs (run_callback cb b))"
    by (rule Cons.IH)
  then show ?case by simp
qed

lemma fold_callbacks_timers:
  "timeouts (fold run_callback cbs s) = timeouts s" "intervals (fold run_callback cbs s) = intervals s"
  by (induction cbs arbitrary: s) (simp_all add: run_callback_eq)

lemma pending_idem:
  "fold run_callback (pending d) (fold run_callback (pending d) s) = fold run_callback (pending d) s"
  by (simp add: pending_def callback_updates sentiment_callback_updates)

lemma visible_timer_update:
  "visible (s\<lparr>timeouts := ts\<rparr>) = visible s" "visible (s\<lparr>intervals := is\<rparr>) = visible s"
  by (simp_all add: visible_eq_iff)

lemma writes_timers:
  "timeouts (writes ts s) = timeouts s" "charts (writes ts s) = charts s"
  by (simp_all add: writes_eq [of ts])

lemma lockstep_fire:
  assumes "lockstep d a b"
  shows "lockstep d (fire_timeouts a) (fire_timeouts b)"
proof -
  from assms obtain X P where P: "P = [] \<or> P = pending d"
    and ta: "timeouts a = X @ P" and tb: "timeouts b = X @ P @ P"
    unfolding lockstep_def by blast
  from assms obtain Y Q where ia: "intervals a = Y @ Q" and ib: "intervals b = Y @ Q @ Q"
    unfolding lockstep_def by blast
  from assms have v: "visible a = visible b"
    unfolding lockstep_def by blast
  let ?a = "a\<lparr>timeouts := []\<rparr>" and ?b = "b\<lparr>timeouts := []\<rparr>"
  have v0: "visible ?a = visible ?b"
    using v by (simp only: visible_timer_update)
  have twice: "fold run_callback P (fold run_callback P s) = fold run_callback P s" for s
    using P pending_idem [of d s] by auto
  have fa: "fire_timeouts a = fold run_callback (X @ P) ?a"
    by (simp add: fire_timeouts_def ta)
  have fb: "fire_timeouts b = fold run_callback (X @ P) ?b"
    by (simp add: fire_timeouts_def tb twice)
  have "visible (fire_timeouts a) = visible (fire_timeouts b)"
    unfolding fa fb using v0 by (rule fold_callbacks_visible)
  moreover have "timeouts (fire_timeouts a) = [] @ []" "timeouts (fire_timeouts b) = [] @ [] @ []"
    unfolding fa fb by (simp_all add: fold_callbacks_timers)
  moreover have "intervals (fire_timeouts a) = Y @ Q" "intervals (fire_timeouts b) = Y @ Q @ Q"
    unfolding fa fb by (simp_all add: fold_callbacks_timers ia ib)
  ultimately show ?thesis
    unfolding lockstep_def by blast
qed

lemma lockstep_tick:
  assumes "lockstep d a b"
  shows "lockstep d (tick_intervals a) (tick_intervals b)"
proof -
  from assms obtain X P where P: "P = [] \<or> P = pending d"
    and ta: "timeouts a = X @ P" and tb: "timeouts b = X @ P @ P"
    unfolding lockstep_def by blast
  from assms obtain Y Q where ia: "intervals a = Y @ Q" and ib: "intervals b = Y @ Q @ Q"
    unfolding lockstep_def by blast
  from assms have v: "visible a = visible b"
    unfolding lockstep_def by blast
  have wb: "writes (Y @ Q @ Q) b = writes (Y @ Q) b"
    by (simp add: writes_append writes_idem)
  have fa: "tick_intervals a = (writes (Y @ Q) a)\<lparr>intervals := advance Y @ advance Q\<rparr>"
    by (simp add: tick_intervals_eq ia advance_append)
  have fb: "tick_intervals b = (writes (Y @ Q) b)\<lparr>intervals := advance Y @ advance Q @ advance Q\<rparr>"
    by (simp add: tick_intervals_eq ib advance_append wb)
  have "visible (writes (Y @ Q) a) = visible (writes (Y @ Q) b)"
    using v by (rule writes_visible)
  then have "visible (tick_intervals a) = visible (tick_intervals b)"
    unfolding fa fb by (simp only: visible_timer_update)
  moreover have "timeouts (tick_intervals a) = X @ P" "timeouts (tick_intervals b) = X @ P @ P"
    unfolding fa fb by (simp_all add: writes_timers ta tb)
  moreover have "intervals (tick_intervals a) = advance Y @ advance Q"
    "intervals (tick_intervals b) = advance Y @ advance Q @ advance Q"
    unfolding fa fb by simp_all
  ultimately show ?thesis
    unfolding lockstep_def using P by blast
qed

lemma lockstep_events:
  assumes "lockstep d a b"
  shows "lockstep d (fold run_event evs a) (fold run_event evs b)"
  using assms
proof (induction evs arbitrary: a b)
  case Nil
  then show ?case by simp
next
  case (Cons e evs)
  from Cons.prems have "lockstep d (run_event e a) (run_event e b)"
    by (cases e) (simp_all add: lockstep_fire lockstep_tick)
  then have "lockstep d (fold run_event evs (run_event e a)) (fold run_event evs (run_event e b))"
    by (rule Cons.IH)
  then show ?case by simp
qed

lemma lockstep_render:
  assumes "chart_inv s"
  shows "lockstep d (displayResults d s) (displayResults d (displayResults d s))"
proof -
  have "visible (displayResults d s) = visible (displayResults d (displayResults d s))"
    using visible_render_twice [OF assms, of d] by simp
  moreover have "timeouts (displayResults d s) = timeouts s @ pending d"
    "timeouts (displayResults d (displayResults d s)) = timeouts s @ pending d @ pending d"
    by (simp_all add: displayResults_timers)
  moreover have "intervals (displayResults d s) = intervals s @ started d"
    "intervals (displayResults d (displayResults d s)) = intervals s @ started d @ started d"
    by (simp_all add: displayResults_timers)
  ultimately show ?thesis
    unfolding lockstep_def by blast
qed

lemma run_event_charts:
  "charts (run_event e s) = charts s" "emotionChart (run_event e s) = emotionChart s"
proof -
  have "charts (fold run_callback cbs s') = charts s' \<and> emotionChart (fold run_callback cbs s') = emotionChart s'"
    for cbs s'
  proof (induction cbs arbitrary: s')
    case Nil
    show ?case by simp
  next
    case (Cons cb cbs)
    have "charts (run_callback cb s') = charts s' \<and> emotionChart (run_callback cb s') = emotionChart s'"
      by (cases cb) (simp_all add: callback_updates sentiment_callback_updates)
    with Cons show ?case by simp
  qed
  then show "charts (run_event e s) = charts s" "emotionChart (run_event e s) = emotionChart s"
    by (cases e; simp add: fire_timeouts_def tick_intervals_eq writes_eq [of "intervals s"])+
qed

lemma events_charts:
  "charts (fold run_event evs s) = charts s \<and> emotionChart (fold run_event evs s) = emotionChart s"
  by (induction evs arbitrary: s) (simp_all add: run_event_charts)

text \<open>
  C4. From a page whose charts obey the discipline, rendering the same result twice in a
  row gives the same visible state as rendering it once, now and after any sequence of
  timer events; exactly one chart is alive, it is the one the global variable refers
  to, and it shows the result's emotions. The chart of the first rendering has been
  destroyed before the second was created.
\<close>

theorem render_idempotent:
  "chart_inv s \<Longrightarrow>
     visible (fold run_event evs (displayResults d (displayResults d s)))
       = visible (fold run_event evs (displayResults d s))
     \<and> length (charts (fold run_event evs (displayResults d (displayResults d s)))) = 1
     \<and> length (charts (fold run_event evs (displayResults d s))) = 1
     \<and> current_chart (fold run_event evs (displayResults d (displayResults d s)))
         = Some (emotion_config (emotions d))
     \<and> chart_inv (displayResults d (displayResults d s))"
proof -
  assume inv: "chart_inv s"
  have inv1: "chart_inv (displayResults d s)"
    using inv by (rule chart_inv_displayResults)
  have "lockstep d (fold run_event evs (displayResults d s))
          (fold run_event evs (displayResults d (displayResults d s)))"
    using lockstep_render [OF inv] by (rule lockstep_events)
  then have v: "visible (fold run_event evs (displayResults d (displayResults d s)))
                  = visible (fold run_event evs (displayResults d s))"
    unfolding lockstep_def by simp
  have c1: "charts (displayResults d s) = [(chart_counter s, emotion_config (emotions d))]"
    using inv by (rule charts_displayResults)
  have c2: "charts (displayResults d (displayResults d s))
              = [(chart_counter (displayResults d s), emotion_config (emotions d))]"
    using inv1 by (rule charts_displayResults)
  have e2: "emotionChart (displayResults d (displayResults d s)) = Some (chart_counter (displayResults d s))"
    by (simp add: displayResults_chart_fields displayEmotionChart_def Chart_new_def Chart_destroy_def
        Let_def split: option.splits)
  have "current_chart (fold run_event evs (displayResults d (displayResults d s)))
          = Some (emotion_config (emotions d))"
    by (simp add: current_chart_def events_charts c2 e2)
  moreover have "chart_inv (displayResults d (displayResults d s))"
    using inv1 by (rule chart_inv_displayResults)
  ultimately show ?thesis
    using v by (simp add: events_charts c1 c2)
qed

theorem render_idempotent_witness:
  "chart_inv (displayResults sample_result loaded_page)
   \<and> visible (fold run_event [Tick, Timeouts, Tick]
        (displayResults sample_result (displayResults sample_result
           (displayResults sample_result loaded_page))))
       = visible (fold run_event [Tick, Timeouts, Tick]
           (displayResults sample_result (displayResults sample_result loaded_page)))
   \<and> length (charts (fold run_event [Tick, Timeouts, Tick]
        (displayResults sample_result (displayResults sample_result
           (displayResults sample_result loaded_page))))) = 1"
proof -
  have "chart_inv loaded_page"
    by (simp add: chart_inv_def loaded_page_def)
  then have inv: "chart_inv (displayResults sample_result loaded_page)"
    by (rule chart_inv_displayResults)
  show ?thesis
    using inv render_idempotent [OF inv, of "[Tick, Timeouts, Tick]" sample_result] by simp
qed


end
